theory Spec2Isabelle
  imports Complex_Main
begin

section \<open>Python strings and the whitespace normalisation of the analyzer\<close>

text \<open>
  Extracted page text is a Python \<open>str\<close>: a sequence of Unicode code points, and
  \<open>len\<close> counts code points. It is modelled as a list of code points.

  \<open>str.split()\<close> without a separator splits at runs of whitespace and drops empty
  words; a character is whitespace when \<open>str.isspace\<close> holds of it. The code points
  below are the ones CPython treats as whitespace.
\<close>

type_synonym pystr = "nat list"

definition py_isspace :: "nat \<Rightarrow> bool" where
  "py_isspace c \<longleftrightarrow>
     (9 \<le> c \<and> c \<le> 13) \<or> (28 \<le> c \<and> c \<le> 32) \<or> c = 133 \<or> c = 160 \<or> c = 5760 \<or>
     (8192 \<le> c \<and> c \<le> 8202) \<or> c = 8232 \<or> c = 8233 \<or> c = 8239 \<or> c = 8287 \<or> c = 12288"

text \<open>
  The scan of \<open>str.split()\<close>: \<open>cur\<close> is the word being read (empty between words).
\<close>

fun split_scan :: "pystr \<Rightarrow> pystr \<Rightarrow> pystr list" where
  "split_scan cur [] = (if cur = [] then [] else [cur])"
| "split_scan cur (c # cs) =
     (if py_isspace c
      then (if cur = [] then split_scan [] cs else cur # split_scan [] cs)
      else split_scan (cur @ [c]) cs)"

definition py_split :: "pystr \<Rightarrow> pystr list" where
  "py_split s = split_scan [] s"

text \<open>\<open>sep.join(words)\<close>.\<close>

fun py_join :: "pystr \<Rightarrow> pystr list \<Rightarrow> pystr" where
  "py_join sep [] = []"
| "py_join sep [w] = w"
| "py_join sep (w # v # ws) = w @ sep @ py_join sep (v # ws)"

text \<open>
  \<open>clean_text = ' '.join(text.split())\<close>, as both backends compute it
  (pdf_detector.py, lines 100 and 147). The separator is the space, code point 32.
\<close>

definition clean_text :: "pystr \<Rightarrow> pystr" where
  "clean_text s = py_join [32] (py_split s)"

section \<open>Exceptions\<close>

text \<open>
  Every \<open>raise\<close> the modelled code can meet is a value. \<open>exn_str\<close> is \<open>str(e)\<close>;
  exceptions that come from a library carry the message the library gave them.
\<close>

datatype exn =
    ZeroDivisionError
  | KeyError string
  | FileNotFoundError string
  | ExitCodeException string
  | AttributeError string
  | OtherException string

fun exn_str :: "exn \<Rightarrow> string" where
  "exn_str ZeroDivisionError = ''division by zero''"
| "exn_str (KeyError k) = [CHR 0x27] @ k @ [CHR 0x27]"
| "exn_str (FileNotFoundError m) = m"
| "exn_str (ExitCodeException m) = m"
| "exn_str (AttributeError m) = m"
| "exn_str (OtherException m) = m"

section \<open>The file system as the program sees it\<close>

text \<open>
  A path names at most one node. Of a node the program reads its size (\<open>stat().st_size\<close>),
  whether it is a regular file (\<open>is_file()\<close>), whether it may be read and written
  (\<open>os.access\<close> with \<open>os.R_OK\<close> and \<open>os.W_OK\<close>), and what each PDF library makes of its
  bytes:
  \<^item> \<open>fitz_view\<close>: \<open>None\<close> when \<open>fitz.open\<close> raises, else the pages; a page is \<open>None\<close>
    when \<open>load_page\<close> or \<open>get_text\<close> raises on it, else its text;
  \<^item> \<open>pypdf2_view\<close>: \<open>OpenRaises\<close> when \<open>open\<close> or \<open>PdfReader\<close> raises (lines 136-137),
    \<open>PagesRaises\<close> when \<open>len(reader.pages)\<close> raises (line 139, after line 138 has set
    the analysis method), else the pages; on a page \<open>extract_text\<close> returns text, or raises
    (caught per page), or the iteration over \<open>reader.pages\<close> itself raises there.
\<close>

type_synonym path = string

datatype pypdf2_page = Extracted pystr | ExtractRaises | IterRaises

datatype pypdf2_reader = OpenRaises | PagesRaises | Reader "pypdf2_page list"

record node =
  st_size :: nat
  is_file :: bool
  readable :: bool
  writable :: bool
  fitz_view :: "pystr option list option"
  pypdf2_view :: pypdf2_reader

type_synonym fs = "path \<Rightarrow> node option"

definition exists :: "fs \<Rightarrow> path \<Rightarrow> bool" where
  "exists fs p = (case fs p of None \<Rightarrow> False | Some n \<Rightarrow> True)"

definition stat_size :: "fs \<Rightarrow> path \<Rightarrow> exn + nat" where
  "stat_size fs p =
     (case fs p of
        None \<Rightarrow> Inl (FileNotFoundError (''[Errno 2] No such file or directory: '' @ [CHR 0x27] @ p @ [CHR 0x27]))
      | Some n \<Rightarrow> Inr (st_size n))"

definition os_access_w :: "fs \<Rightarrow> path \<Rightarrow> bool" where
  "os_access_w fs p = (case fs p of None \<Rightarrow> False | Some n \<Rightarrow> writable n)"

definition fitz_open :: "fs \<Rightarrow> path \<Rightarrow> pystr option list option" where
  "fitz_open fs p = (case fs p of None \<Rightarrow> None | Some n \<Rightarrow> fitz_view n)"

definition pypdf2_open :: "fs \<Rightarrow> path \<Rightarrow> pypdf2_reader" where
  "pypdf2_open fs p = (case fs p of None \<Rightarrow> OpenRaises | Some n \<Rightarrow> pypdf2_view n)"

definition path_is_file :: "fs \<Rightarrow> path \<Rightarrow> bool" where
  "path_is_file fs p = (case fs p of None \<Rightarrow> False | Some n \<Rightarrow> is_file n)"

definition os_access_r :: "fs \<Rightarrow> path \<Rightarrow> bool" where
  "os_access_r fs p = (case fs p of None \<Rightarrow> False | Some n \<Rightarrow> readable n)"

section \<open>The text-presence analyzer (core/pdf_detector.py)\<close>

text \<open>
  The result dictionary of \<open>analyze_pdf\<close>. Page and character counts are results of
  \<open>len\<close> and sums of them, hence natural numbers. \<open>average_chars_per_page\<close> and the
  text-page ratio are Python floats, the correctly rounded quotients of two integers; they
  are modelled by the exact quotients in \<open>real\<close>, and the float literal \<open>0.1\<close> by
  \<open>1/10\<close>. (Rounding is monotone and the float \<open>0.1\<close> is the rounding of \<open>1/10\<close>; the
  comparisons of the code with 50 and with 0.1 give the same answers on floats and on
  exact quotients for every page count below \<open>2^48\<close>.)
\<close>

record analysis =
  file_path :: path
  has_text :: bool
  is_searchable :: bool
  needs_ocr :: bool
  total_pages :: nat
  pages_with_text :: nat
  total_characters :: nat
  average_chars_per_page :: real
  analysis_method :: string
  error :: "string option"

text \<open>
  \<open>analyze_pdf\<close> returns one of two dictionaries: the full one above, or, from its
  \<open>except\<close> clause, one with the five keys \<open>file_path\<close>, \<open>has_text\<close>, \<open>is_searchable\<close>,
  \<open>needs_ocr\<close> and \<open>error\<close> only.
\<close>

datatype analysis_dict =
    Analysis analysis
  | AnalysisExc path bool bool bool string

record pdf_detector =
  min_text_threshold :: nat
  min_text_ratio :: real

definition PDFDetector :: pdf_detector where
  "PDFDetector = \<lparr>min_text_threshold = 50, min_text_ratio = 1 / 10\<rparr>"

text \<open>
  The page loop of \<open>_analyze_with_pymupdf\<close> (lines 95-110), with its two counters;
  \<open>None\<close> when a page raises, which leaves the function through its \<open>except\<close>.
\<close>

fun pymupdf_pages :: "pdf_detector \<Rightarrow> pystr option list \<Rightarrow> nat \<Rightarrow> nat \<Rightarrow> (nat \<times> nat) option" where
  "pymupdf_pages self [] total_chars pages_with_text' = Some (total_chars, pages_with_text')"
| "pymupdf_pages self (None # ps) total_chars pages_with_text' = None"
| "pymupdf_pages self (Some text # ps) total_chars pages_with_text' =
     (let char_count = length (clean_text text)
      in pymupdf_pages self ps (total_chars + char_count)
           (if char_count > min_text_threshold self then pages_with_text' + 1 else pages_with_text'))"

definition analyze_with_pymupdf :: "pdf_detector \<Rightarrow> fs \<Rightarrow> path \<Rightarrow> analysis \<Rightarrow> bool \<times> analysis" where
  "analyze_with_pymupdf self fs pdf_path result =
     (case fitz_open fs pdf_path of
        None \<Rightarrow> (False, result)
      | Some doc \<Rightarrow>
          (let result1 = result\<lparr>analysis_method := ''PyMuPDF'', total_pages := length doc\<rparr>
           in case pymupdf_pages self doc 0 0 of
                None \<Rightarrow> (False, result1)
              | Some (total_chars, pwt) \<Rightarrow>
                  (True, result1\<lparr>total_characters := total_chars,
                                 pages_with_text := pwt,
                                 average_chars_per_page :=
                                   (if total_pages result1 > 0
                                    then real total_chars / real (total_pages result1) else 0)\<rparr>)))"

text \<open>
  The page loop of \<open>_analyze_with_pypdf2\<close> (lines 144-157): a page whose extraction
  raises is logged and skipped (\<open>continue\<close>); a failure of the iteration itself leaves
  the function through the outer \<open>except\<close>.
\<close>

fun pypdf2_pages :: "pdf_detector \<Rightarrow> pypdf2_page list \<Rightarrow> nat \<Rightarrow> nat \<Rightarrow> (nat \<times> nat) option" where
  "pypdf2_pages self [] total_chars pages_with_text' = Some (total_chars, pages_with_text')"
| "pypdf2_pages self (IterRaises # ps) total_chars pages_with_text' = None"
| "pypdf2_pages self (ExtractRaises # ps) total_chars pages_with_text' =
     pypdf2_pages self ps total_chars pages_with_text'"
| "pypdf2_pages self (Extracted text # ps) total_chars pages_with_text' =
     (let char_count = length (clean_text text)
      in pypdf2_pages self ps (total_chars + char_count)
           (if char_count > min_text_threshold self then pages_with_text' + 1 else pages_with_text'))"

definition analyze_with_pypdf2 :: "pdf_detector \<Rightarrow> fs \<Rightarrow> path \<Rightarrow> analysis \<Rightarrow> bool \<times> analysis" where
  "analyze_with_pypdf2 self fs pdf_path result =
     (case pypdf2_open fs pdf_path of
        OpenRaises \<Rightarrow> (False, result)
      | PagesRaises \<Rightarrow> (False, result\<lparr>analysis_method := ''PyPDF2''\<rparr>)
      | Reader pages \<Rightarrow>
          (let result1 = result\<lparr>analysis_method := ''PyPDF2'', total_pages := length pages\<rparr>
           in case pypdf2_pages self pages 0 0 of
                None \<Rightarrow> (False, result1)
              | Some (total_chars, pwt) \<Rightarrow>
                  (True, result1\<lparr>total_characters := total_chars,
                                 pages_with_text := pwt,
                                 average_chars_per_page :=
                                   (if total_pages result1 > 0
                                    then real total_chars / real (total_pages result1) else 0)\<rparr>)))"

text \<open>
  \<open>_determine_ocr_need\<close> (lines 177-185). Python's \<open>and\<close> evaluates its operands from
  the left and stops at the first false one, so the quotient
  \<open>pages_with_text / total_pages\<close> is computed only when the first two comparisons hold;
  computed with \<open>total_pages = 0\<close> it raises \<open>ZeroDivisionError\<close>.
\<close>

definition has_sufficient_text :: "pdf_detector \<Rightarrow> analysis \<Rightarrow> exn + bool" where
  "has_sufficient_text self result =
     (if total_characters result > min_text_threshold self then
        (if average_chars_per_page result > real (min_text_threshold self) then
           (if total_pages result = 0 then Inl ZeroDivisionError
            else Inr (real (pages_with_text result) / real (total_pages result) \<ge> min_text_ratio self))
         else Inr False)
      else Inr False)"

definition determine_ocr_need :: "pdf_detector \<Rightarrow> analysis \<Rightarrow> exn + analysis" where
  "determine_ocr_need self result =
     (case has_sufficient_text self result of
        Inl e \<Rightarrow> Inl e
      | Inr b \<Rightarrow> Inr (result\<lparr>has_text := b, is_searchable := b, needs_ocr := (\<not> b)\<rparr>))"

text \<open>
  The analyzer's message when both backends fail (line 54), as UTF-8 bytes:
  "No se pudo analizar el PDF con ningun metodo", with its two accented letters.
\<close>

definition msg_no_method :: string where
  "msg_no_method =
     ''No se pudo analizar el PDF con ning'' @ [CHR 0xC3, CHR 0xBA] @ ''n m'' @
     [CHR 0xC3, CHR 0xA9] @ ''todo''"

definition initial_result :: "path \<Rightarrow> analysis" where
  "initial_result pdf_path =
     \<lparr>file_path = pdf_path, has_text = False, is_searchable = False, needs_ocr = True,
      total_pages = 0, pages_with_text = 0, total_characters = 0,
      average_chars_per_page = 0, analysis_method = [], error = None\<rparr>"

text \<open>
  The end of \<open>analyze_pdf\<close> (lines 57-74): the classification, and the \<open>except\<close>
  clause that turns an exception into the five-key dictionary.
\<close>

definition classify_and_return :: "pdf_detector \<Rightarrow> path \<Rightarrow> analysis \<Rightarrow> analysis_dict" where
  "classify_and_return self pdf_path result =
     (case determine_ocr_need self result of
        Inl e \<Rightarrow> AnalysisExc pdf_path False False True (exn_str e)
      | Inr result' \<Rightarrow> Analysis result')"

definition analyze_pdf :: "pdf_detector \<Rightarrow> fs \<Rightarrow> path \<Rightarrow> analysis_dict" where
  "analyze_pdf self fs pdf_path =
     (case analyze_with_pymupdf self fs pdf_path (initial_result pdf_path) of
        (True, result) \<Rightarrow> classify_and_return self pdf_path result
      | (False, result) \<Rightarrow>
          (case analyze_with_pypdf2 self fs pdf_path result of
             (True, result') \<Rightarrow> classify_and_return self pdf_path result'
           | (False, result') \<Rightarrow> Analysis (result'\<lparr>error := Some msg_no_method\<rparr>)))"

text \<open>Reading an analysis dictionary: \<open>analysis.get('needs_ocr', True)\<close>,
  \<open>analysis.get('error')\<close>, and the truth value of an optional string.\<close>

fun get_needs_ocr :: "analysis_dict \<Rightarrow> bool" where
  "get_needs_ocr (Analysis a) = needs_ocr a"
| "get_needs_ocr (AnalysisExc p h s n e) = n"

fun get_error :: "analysis_dict \<Rightarrow> string option" where
  "get_error (Analysis a) = error a"
| "get_error (AnalysisExc p h s n e) = Some e"

fun truthy :: "string option \<Rightarrow> bool" where
  "truthy None = False"
| "truthy (Some s) = (s \<noteq> [])"

section \<open>Configuration (utils/config.py) and the external libraries\<close>

text \<open>
  A configuration is a Python dictionary from option names to values of several types.
  \<open>Config_OCRMYPDF_CONFIG\<close> is the class attribute \<open>Config.OCRMYPDF_CONFIG\<close>
  (config.py, lines 34-41), which \<open>process_single_pdf\<close> hands to the invoker.
\<close>

datatype cfg_val = CStr string | CBool bool | CInt int

type_synonym config_dict = "string \<Rightarrow> cfg_val option"

definition Config_OCRMYPDF_CONFIG :: config_dict where
  "Config_OCRMYPDF_CONFIG =
     [''language'' \<mapsto> CStr ''spa'',
      ''deskew'' \<mapsto> CBool True,
      ''clean'' \<mapsto> CBool True,
      ''optimize'' \<mapsto> CInt 1,
      ''pdf_renderer'' \<mapsto> CStr ''hocr'',
      ''progress_bar'' \<mapsto> CBool True]"

text \<open>\<open>d.get(key, default)\<close>.\<close>

definition dict_get :: "config_dict \<Rightarrow> string \<Rightarrow> cfg_val \<Rightarrow> cfg_val" where
  "dict_get d k dflt = (case d k of None \<Rightarrow> dflt | Some v \<Rightarrow> v)"

text \<open>
  What the program calls outside itself. Each library call is a function of the file
  system it finds; it returns the exception it raised, if any, and the file system it
  leaves. \<open>path_parent\<close>, \<open>path_suffix\<close> and \<open>path_resolve\<close> are \<open>pathlib\<close>'s
  \<open>Path.parent\<close>, \<open>Path.suffix\<close> and \<open>Path.resolve()\<close>; the last one reads the file
  system.
\<close>

record env =
  path_parent :: "path \<Rightarrow> path"
  path_suffix :: "path \<Rightarrow> string"
  path_resolve :: "fs \<Rightarrow> path \<Rightarrow> path"
  mkdir_parents :: "fs \<Rightarrow> path \<Rightarrow> exn option \<times> fs"
  ocrmypdf_ocr :: "fs \<Rightarrow> path \<Rightarrow> path \<Rightarrow> config_dict \<Rightarrow> exn option \<times> fs"
  shutil_copy2 :: "fs \<Rightarrow> path \<Rightarrow> path \<Rightarrow> exn option \<times> fs"

text \<open>
  The state threaded through the program: the file system, and a record of the calls made
  to the analyzer and to the libraries that act on files, in order. The record of calls is
  not a variable of the program; it is kept to state which calls a run makes.
\<close>

datatype event =
    AnalyzeCall path
  | OcrCall path path config_dict
  | CopyCall path path
  | MkdirCall path

record world =
  files :: fs
  calls :: "event list"

fun is_ocr_call :: "event \<Rightarrow> bool" where
  "is_ocr_call (OcrCall i out kw) = True"
| "is_ocr_call e = False"

fun is_copy_call :: "event \<Rightarrow> bool" where
  "is_copy_call (CopyCall i out) = True"
| "is_copy_call e = False"

fun is_analyze_call :: "event \<Rightarrow> bool" where
  "is_analyze_call (AnalyzeCall i) = True"
| "is_analyze_call e = False"

section \<open>The OCR invoker (core/ocr_processor.py)\<close>

record ocr_processor =
  config :: config_dict
  tesseract_cmd :: "cfg_val option"
  language :: cfg_val
  dpi :: cfg_val

text \<open>\<open>OCRProcessor.__init__\<close> (lines 26-29).\<close>

definition OCRProcessor :: "config_dict \<Rightarrow> ocr_processor" where
  "OCRProcessor cfg =
     \<lparr>config = cfg,
      tesseract_cmd = cfg ''tesseract_cmd'',
      language = dict_get cfg ''language'' (CStr ''spa''),
      dpi = dict_get cfg ''dpi'' (CInt 300)\<rparr>"

text \<open>
  The result dictionary of \<open>process_pdf\<close>. Its key \<open>error\<close> is the field
  \<open>result_error\<close> here (the analysis result has a key of the same name).
  \<open>pages_processed\<close> is an integer or, after a copy, a string.
\<close>

datatype pages_val = PagesInt nat | PagesStr string

record proc_result =
  success :: bool
  input_file :: path
  output_file :: path
  processing_method :: string
  pages_processed :: pages_val
  processing_time :: nat
  file_size_before :: nat
  file_size_after :: nat
  result_error :: "string option"

text \<open>
  \<open>process_pdf\<close> returns the full dictionary, or from its \<open>except\<close> clause one with the
  four keys \<open>success\<close>, \<open>input_file\<close>, \<open>output_file\<close> and \<open>error\<close>.
\<close>

datatype proc_dict =
    ProcResult proc_result
  | ProcExc bool path path string

fun get_success :: "proc_dict \<Rightarrow> bool" where
  "get_success (ProcResult r) = success r"
| "get_success (ProcExc s i out e) = s"

fun get_result_error :: "proc_dict \<Rightarrow> string option" where
  "get_result_error (ProcResult r) = result_error r"
| "get_result_error (ProcExc s i out e) = Some e"

text \<open>
  The message of line 86, "El archivo de salida no se genero correctamente", as UTF-8
  bytes with its accented letter.
\<close>

definition msg_output_not_generated :: string where
  "msg_output_not_generated =
     ''El archivo de salida no se gener'' @ [CHR 0xC3, CHR 0xB3] @ '' correctamente''"

text \<open>
  The keyword arguments \<open>_apply_ocr\<close> builds for \<open>ocrmypdf.ocr\<close> (lines 116-126).
\<close>

definition ocr_config :: "ocr_processor \<Rightarrow> config_dict" where
  "ocr_config self =
     [''language'' \<mapsto> language self,
      ''deskew'' \<mapsto> CBool False,
      ''clean'' \<mapsto> CBool False,
      ''optimize'' \<mapsto> CInt 1,
      ''pdf_renderer'' \<mapsto> CStr ''hocr'',
      ''progress_bar'' \<mapsto> CBool False,
      ''force_ocr'' \<mapsto> CBool True,
      ''redo_ocr'' \<mapsto> CBool False,
      ''skip_text'' \<mapsto> CBool False]"

text \<open>
  \<open>_apply_ocr\<close> (lines 112-150): one call of \<open>ocrmypdf.ocr\<close>. The progress callback of
  lines 130-133 is defined and never passed on, so \<open>result\<close> is not changed.

  When the engine raises, Python looks for a handler and evaluates the expression of the
  first \<open>except\<close> clause, \<open>ocrmypdf.exceptions.ExitCodeNotOk\<close> (line 145). The module
  \<open>ocrmypdf.exceptions\<close> has no attribute of that name (its exceptions are
  \<open>ExitCodeException\<close> and its subclasses), so the evaluation raises \<open>AttributeError\<close>;
  that exception leaves the whole \<open>try\<close> statement, the clause \<open>except Exception\<close> of
  line 148 included, and \<open>_apply_ocr\<close> raises it to its caller. The function returns
  \<open>True\<close> or raises; it never returns \<open>False\<close>.
\<close>

definition msg_no_exit_code_not_ok :: string where
  "msg_no_exit_code_not_ok =
     ''module '' @ [CHR 0x27] @ ''ocrmypdf.exceptions'' @ [CHR 0x27] @ '' has no attribute '' @
     [CHR 0x27] @ ''ExitCodeNotOk'' @ [CHR 0x27]"

definition apply_ocr ::
  "env \<Rightarrow> ocr_processor \<Rightarrow> path \<Rightarrow> path \<Rightarrow> proc_result \<Rightarrow> world \<Rightarrow>
     (exn + bool) \<times> proc_result \<times> world" where
  "apply_ocr ev self input_path output_path result w =
     (case ocrmypdf_ocr ev (files w) input_path output_path (ocr_config self) of
        (raised, fs') \<Rightarrow>
          (let w' = \<lparr>files = fs', calls = calls w @ [OcrCall input_path output_path (ocr_config self)]\<rparr>
           in case raised of
                None \<Rightarrow> (Inr True, result, w')
              | Some e \<Rightarrow> (Inl (AttributeError msg_no_exit_code_not_ok), result, w')))"

text \<open>\<open>_copy_existing\<close> (lines 165-179).\<close>

definition copy_existing ::
  "env \<Rightarrow> path \<Rightarrow> path \<Rightarrow> proc_result \<Rightarrow> world \<Rightarrow> bool \<times> proc_result \<times> world" where
  "copy_existing ev input_path output_path result w =
     (case shutil_copy2 ev (files w) input_path output_path of
        (raised, fs') \<Rightarrow>
          (let w' = \<lparr>files = fs', calls = calls w @ [CopyCall input_path output_path]\<rparr>
           in case raised of
                None \<Rightarrow> (True, result\<lparr>pages_processed := PagesStr ''N/A (copia directa)''\<rparr>, w')
              | Some e \<Rightarrow> (False, result, w')))"

definition initial_proc_result :: "path \<Rightarrow> path \<Rightarrow> proc_result" where
  "initial_proc_result input_path output_path =
     \<lparr>success = False, input_file = input_path, output_file = output_path,
      processing_method = [], pages_processed = PagesInt 0, processing_time = 0,
      file_size_before = 0, file_size_after = 0, result_error = None\<rparr>"

text \<open>
  The choice of the action in \<open>process_pdf\<close> (lines 63-78). \<open>_copy_existing\<close> always
  returns; \<open>_apply_ocr\<close> may raise.
\<close>

definition choose_and_run ::
  "env \<Rightarrow> ocr_processor \<Rightarrow> path \<Rightarrow> path \<Rightarrow> bool \<Rightarrow> proc_result \<Rightarrow> world \<Rightarrow>
     (exn + bool) \<times> proc_result \<times> world" where
  "choose_and_run ev self input_path output_path force_ocr result w =
     (if force_ocr then
        apply_ocr ev self input_path output_path (result\<lparr>processing_method := ''OCR_FORCED''\<rparr>) w
      else
        (let detector = PDFDetector;
             analysis = analyze_pdf detector (files w) input_path;
             w1 = w\<lparr>calls := calls w @ [AnalyzeCall input_path]\<rparr>
         in if get_needs_ocr analysis then
              apply_ocr ev self input_path output_path (result\<lparr>processing_method := ''OCR_APPLIED''\<rparr>) w1
            else
              (case copy_existing ev input_path output_path
                      (result\<lparr>processing_method := ''COPY_EXISTING''\<rparr>) w1 of
                 (ok, result', w2) \<Rightarrow> (Inr ok, result', w2))))"

text \<open>
  \<open>process_pdf\<close> (lines 44-97). The first \<open>stat\<close> raises when the input does not exist;
  every exception, the one \<open>_apply_ocr\<close> raises included, ends in the \<open>except\<close> clause
  and its four-key dictionary.
\<close>

definition process_pdf ::
  "env \<Rightarrow> ocr_processor \<Rightarrow> world \<Rightarrow> path \<Rightarrow> path \<Rightarrow> bool \<Rightarrow> proc_dict \<times> world" where
  "process_pdf ev self w input_path output_path force_ocr =
     (case stat_size (files w) input_path of
        Inl e \<Rightarrow> (ProcExc False input_path output_path (exn_str e), w)
      | Inr size_before \<Rightarrow>
          (case choose_and_run ev self input_path output_path force_ocr
                  ((initial_proc_result input_path output_path)\<lparr>file_size_before := size_before\<rparr>) w of
             (Inl e, result, w') \<Rightarrow> (ProcExc False input_path output_path (exn_str e), w')
           | (Inr ok, result, w') \<Rightarrow>
               (if ok \<and> exists (files w') output_path then
                  (case stat_size (files w') output_path of
                     Inl e \<Rightarrow> (ProcExc False input_path output_path (exn_str e), w')
                   | Inr size_after \<Rightarrow>
                       (ProcResult (result\<lparr>success := True, file_size_after := size_after\<rparr>), w'))
                else
                  (ProcResult (result\<lparr>result_error := Some msg_output_not_generated\<rparr>), w'))))"

section \<open>Validation (utils/validators.py)\<close>

text \<open>
  \<open>str.lower()\<close> on a path suffix. Only the letters A-Z matter for the comparison with
  \<open>'.pdf'\<close>: no other character lowers to one of \<open>p\<close>, \<open>d\<close>, \<open>f\<close> or the dot.
\<close>

definition lower_char :: "char \<Rightarrow> char" where
  "lower_char c =
     (let n = (of_char c :: nat) in if 65 \<le> n \<and> n \<le> 90 then char_of (n + 32) else c)"

definition py_lower :: "string \<Rightarrow> string" where
  "py_lower s = map lower_char s"

text \<open>The messages of the validators, by kind; the values are what the message quotes.\<close>

datatype validation_msg =
    NotExists path
  | NotPdf string
  | TooLarge real
  | EmptyPdf
  | AccessError string
  | CannotCreateDir path
  | OutputNotPdf
  | NoWritePermission path

text \<open>\<open>FileValidator.validate_pdf_file\<close> (lines 27-51).\<close>

definition validate_pdf_file :: "env \<Rightarrow> fs \<Rightarrow> path \<Rightarrow> bool \<times> validation_msg option" where
  "validate_pdf_file ev fs file_path' =
     (if \<not> exists fs file_path' then (False, Some (NotExists file_path'))
      else if py_lower (path_suffix ev file_path') \<noteq> ''.pdf''
        then (False, Some (NotPdf (path_suffix ev file_path')))
      else
        (case stat_size fs file_path' of
           Inl e \<Rightarrow> (False, Some (AccessError (exn_str e)))
         | Inr sz \<Rightarrow>
             (let size_mb = real sz / (1024 * 1024)
              in if size_mb > 100 then (False, Some (TooLarge size_mb))
                 else if sz = 0 then (False, Some EmptyPdf)
                 else (True, None))))"

text \<open>
  \<open>FileValidator.validate_output_path\<close> (lines 64-87). It receives the output path
  only. Lines 75-83 are \<open>check_output_file\<close>; lines 67-73 may create the parent
  directory first.
\<close>

definition check_output_file :: "env \<Rightarrow> fs \<Rightarrow> path \<Rightarrow> bool \<times> validation_msg option" where
  "check_output_file ev fs output_path =
     (if py_lower (path_suffix ev output_path) \<noteq> ''.pdf'' then (False, Some OutputNotPdf)
      else if exists fs output_path \<and> \<not> os_access_w fs output_path
        then (False, Some (NoWritePermission output_path))
      else (True, None))"

definition validate_output_path ::
  "env \<Rightarrow> world \<Rightarrow> path \<Rightarrow> (bool \<times> validation_msg option) \<times> world" where
  "validate_output_path ev w output_path =
     (let parent_dir = path_parent ev output_path
      in if \<not> exists (files w) parent_dir then
           (case mkdir_parents ev (files w) parent_dir of
              (raised, fs') \<Rightarrow>
                (let w' = \<lparr>files = fs', calls = calls w @ [MkdirCall parent_dir]\<rparr>
                 in case raised of
                      Some e \<Rightarrow> ((False, Some (CannotCreateDir parent_dir)), w')
                    | None \<Rightarrow> (check_output_file ev fs' output_path, w')))
         else (check_output_file ev (files w) output_path, w))"

section \<open>The path validation of the file manager (core/file_manager.py)\<close>

text \<open>
  \<open>FileManager.validate_paths\<close> (lines 228-268) collects the messages of all checks that
  fail; the last check compares the resolved paths of input and output (lines 260-262).
  \<open>main.py\<close> imports \<open>FileManager\<close> (line 27) and never calls it.
\<close>

datatype path_msg =
    InputMissing path
  | InputNotFile path
  | InputNotPdf path
  | NoReadPermission path
  | OutputDirNotCreated string
  | NoWriteExisting path
  | NoWriteDir path
  | SameFile

definition validate_paths ::
  "env \<Rightarrow> world \<Rightarrow> path \<Rightarrow> path \<Rightarrow> (bool \<times> path_msg list) \<times> world" where
  "validate_paths ev w input_path output_path =
     (let errors1 =
            (if \<not> exists (files w) input_path then [InputMissing input_path]
             else if \<not> path_is_file (files w) input_path then [InputNotFile input_path]
             else if py_lower (path_suffix ev input_path) \<noteq> ''.pdf'' then [InputNotPdf input_path]
             else if \<not> os_access_r (files w) input_path then [NoReadPermission input_path]
             else []);
          output_dir = path_parent ev output_path
      in case (if \<not> exists (files w) output_dir then
                 (case mkdir_parents ev (files w) output_dir of
                    (raised, fs') \<Rightarrow>
                      ((case raised of Some e \<Rightarrow> [OutputDirNotCreated (exn_str e)] | None \<Rightarrow> []),
                       \<lparr>files = fs', calls = calls w @ [MkdirCall output_dir]\<rparr>))
               else ([], w)) of
           (errors2, w1) \<Rightarrow>
             (let errors3 =
                    (if exists (files w1) output_path \<and> \<not> os_access_w (files w1) output_path
                       then [NoWriteExisting output_path]
                     else if \<not> os_access_w (files w1) output_dir then [NoWriteDir output_dir]
                     else []);
                  errors4 =
                    (if path_resolve ev (files w1) input_path = path_resolve ev (files w1) output_path
                       then [SameFile] else []);
                  errors = errors1 @ errors2 @ errors3 @ errors4
              in ((errors = [], errors), w1)))"

section \<open>The orchestrator (main.py)\<close>

text \<open>
  \<open>process_single_pdf\<close> (lines 133-191); the console output is left out. The class
  attribute \<open>Config.OCRMYPDF_CONFIG\<close> it reads is the parameter \<open>cfg\<close>. After the
  guard of line 154 the function reads \<open>analysis['total_pages']\<close>, which the five-key
  dictionary does not have: the \<open>KeyError\<close> ends in the \<open>except\<close> clause of line 189.
\<close>

definition process_single_pdf ::
  "env \<Rightarrow> config_dict \<Rightarrow> world \<Rightarrow> path \<Rightarrow> path \<Rightarrow> bool \<Rightarrow> bool \<times> world" where
  "process_single_pdf ev cfg w input_path output_path force_ocr =
     (case validate_pdf_file ev (files w) input_path of
        (False, input_error) \<Rightarrow> (False, w)
      | (True, input_error) \<Rightarrow>
          (case validate_output_path ev w output_path of
             ((False, output_error), w1) \<Rightarrow> (False, w1)
           | ((True, output_error), w1) \<Rightarrow>
               (let detector = PDFDetector;
                    analysis = analyze_pdf detector (files w1) input_path;
                    w2 = w1\<lparr>calls := calls w1 @ [AnalyzeCall input_path]\<rparr>
                in if truthy (get_error analysis) then (False, w2)
                   else
                     (case analysis of
                        AnalysisExc p h s n e \<Rightarrow> (False, w2)
                      | Analysis a \<Rightarrow>
                          (let ocr_processor = OCRProcessor cfg
                           in case process_pdf ev ocr_processor w2 input_path output_path force_ocr of
                                (result, w3) \<Rightarrow>
                                  (if get_success result then (True, w3) else (False, w3)))))))"

section \<open>What a successful backend leaves in the result\<close>

text \<open>
  The relation between the dictionary \<open>r0\<close> a backend receives and the dictionary \<open>r\<close>
  it leaves when it returns \<open>True\<close>, as far as the classification reads it.
\<close>

definition extracted :: "analysis \<Rightarrow> analysis \<Rightarrow> bool" where
  "extracted r0 r \<longleftrightarrow>
     pages_with_text r \<le> total_pages r \<and>
     (total_pages r = 0 \<and> total_characters r = 0 \<and> average_chars_per_page r = 0 \<or>
      0 < total_pages r \<and>
      average_chars_per_page r = real (total_characters r) / real (total_pages r)) \<and>
     error r = error r0 \<and> file_path r = file_path r0"

section \<open>Example inputs\<close>

text \<open>
  A three-page document whose pages hold 0, 5 and 200 characters (the letter a, code
  point 97), readable by the primary backend only; a document without pages; a file that
  neither backend can read. Each stands at \<open>in.pdf\<close> in a file system that also has the
  current directory.
\<close>

definition three_page_doc :: "pystr option list" where
  "three_page_doc = [Some [], Some (replicate 5 97), Some (replicate 200 97)]"

definition text_node :: node where
  "text_node =
     \<lparr>st_size = 2048, is_file = True, readable = True, writable = True,
      fitz_view = Some three_page_doc, pypdf2_view = OpenRaises\<rparr>"

definition empty_node :: node where
  "empty_node =
     \<lparr>st_size = 2048, is_file = True, readable = True, writable = True,
      fitz_view = Some [], pypdf2_view = OpenRaises\<rparr>"

definition broken_node :: node where
  "broken_node =
     \<lparr>st_size = 2048, is_file = True, readable = True, writable = True,
      fitz_view = None, pypdf2_view = OpenRaises\<rparr>"

definition dir_node :: node where
  "dir_node =
     \<lparr>st_size = 4096, is_file = False, readable = True, writable = True,
      fitz_view = None, pypdf2_view = OpenRaises\<rparr>"

definition fs_text :: fs where
  "fs_text = [''.'' \<mapsto> dir_node, ''in.pdf'' \<mapsto> text_node]"

definition fs_empty :: fs where
  "fs_empty = [''.'' \<mapsto> dir_node, ''in.pdf'' \<mapsto> empty_node]"

definition fs_broken :: fs where
  "fs_broken = [''.'' \<mapsto> dir_node, ''in.pdf'' \<mapsto> broken_node]"

definition w_text :: world where
  "w_text = \<lparr>files = fs_text, calls = []\<rparr>"

definition w_broken :: world where
  "w_broken = \<lparr>files = fs_broken, calls = []\<rparr>"

text \<open>
  Example libraries, for paths without a directory part and a file system without links:
  the suffix of a name is what starts at its last dot, its parent is the current
  directory, and it resolves to itself. The engine of
  \<open>env_ok\<close> writes the output file; the engine of \<open>env_fails\<close> raises with the message
  "tesseract failed" and writes nothing, that of \<open>env_disk_full\<close> with the message
  "disk full"; the engine of \<open>env_silent\<close> returns normally
  and writes nothing.
\<close>

definition suffix_of :: "path \<Rightarrow> string" where
  "suffix_of p =
     (if CHR ''.'' \<in> set p then CHR ''.'' # rev (takeWhile (\<lambda>c. c \<noteq> CHR ''.'') (rev p)) else [])"

definition env_ok :: env where
  "env_ok =
     \<lparr>path_parent = (\<lambda>p. ''.''),
      path_suffix = suffix_of,
      path_resolve = (\<lambda>fs p. p),
      mkdir_parents = (\<lambda>fs p. (None, fs(p \<mapsto> dir_node))),
      ocrmypdf_ocr = (\<lambda>fs i out kw. (None, fs(out \<mapsto> text_node))),
      shutil_copy2 = (\<lambda>fs i out.
         case fs i of None \<Rightarrow> (Some (FileNotFoundError i), fs) | Some n \<Rightarrow> (None, fs(out \<mapsto> n)))\<rparr>"

definition env_fails :: env where
  "env_fails = env_ok\<lparr>ocrmypdf_ocr := (\<lambda>fs i out kw. (Some (ExitCodeException ''tesseract failed''), fs))\<rparr>"

definition env_disk_full :: env where
  "env_disk_full = env_ok\<lparr>ocrmypdf_ocr := (\<lambda>fs i out kw. (Some (OtherException ''disk full''), fs))\<rparr>"

definition env_silent :: env where
  "env_silent = env_ok\<lparr>ocrmypdf_ocr := (\<lambda>fs i out kw. (None, fs))\<rparr>"

section \<open>Predicates of the properties\<close>

text \<open>A word as \<open>str.split()\<close> returns it: not empty, without whitespace.\<close>

definition word_ok :: "pystr \<Rightarrow> bool" where
  "word_ok w \<longleftrightarrow> w \<noteq> [] \<and> list_all (\<lambda>c. \<not> py_isspace c) w"

text \<open>
  Both backends fail on a path: the primary one returns \<open>False\<close>, and so does the
  fallback, run on the dictionary the primary one left.
\<close>

definition both_backends_fail :: "pdf_detector \<Rightarrow> fs \<Rightarrow> path \<Rightarrow> bool" where
  "both_backends_fail self fs p \<longleftrightarrow>
     (case analyze_with_pymupdf self fs p (initial_result p) of
        (ok1, r1) \<Rightarrow> \<not> ok1 \<and> \<not> fst (analyze_with_pypdf2 self fs p r1))"

text \<open>
  The calls that are processing: of the analyzer, of the OCR engine, of the copy; among
  them the calls of the engine, and the actions of the invoker (engine or copy).
  The orchestrator's validation rejects a pair of paths when one of its two validators
  does.
\<close>

definition processing_calls :: "event list \<Rightarrow> event list" where
  "processing_calls es = filter (\<lambda>e. is_analyze_call e \<or> is_ocr_call e \<or> is_copy_call e) es"

definition ocr_calls :: "event list \<Rightarrow> event list" where
  "ocr_calls es = filter is_ocr_call es"

definition action_calls :: "event list \<Rightarrow> event list" where
  "action_calls es = filter (\<lambda>e. is_ocr_call e \<or> is_copy_call e) es"

definition validation_rejects :: "env \<Rightarrow> world \<Rightarrow> path \<Rightarrow> path \<Rightarrow> bool" where
  "validation_rejects ev w input_path output_path \<longleftrightarrow>
     \<not> (fst (validate_pdf_file ev (files w) input_path) \<and>
        fst (fst (validate_output_path ev w output_path)))"

section \<open>Properties of the whitespace normalisation\<close>

lemma split_scan_words:
  "list_all (\<lambda>c. \<not> py_isspace c) cur \<Longrightarrow> list_all word_ok (split_scan cur s)"
  by (induction cur s rule: split_scan.induct) (auto simp: word_ok_def)

lemma split_scan_word_prefix:
  "list_all (\<lambda>c. \<not> py_isspace c) w \<Longrightarrow> split_scan cur (w @ rest) = split_scan (cur @ w) rest"
  by (induction w arbitrary: cur) auto

lemma space_isspace: "py_isspace 32"
  by (simp add: py_isspace_def)

lemma split_scan_join:
  "list_all word_ok ws \<Longrightarrow> split_scan [] (py_join [32] ws) = ws"
proof (induction "[32::nat]" ws rule: py_join.induct)
  case 1
  show ?case by simp
next
  case (2 w)
  then have "list_all (\<lambda>c. \<not> py_isspace c) w" and "w \<noteq> []"
    by (simp_all add: word_ok_def)
  then show ?case
    using split_scan_word_prefix [of w "[]" "[]"] by simp
next
  case (3 w v ws)
  then have w: "list_all (\<lambda>c. \<not> py_isspace c) w" "w \<noteq> []"
    and rest: "split_scan [] (py_join [32] (v # ws)) = v # ws"
    by (simp_all add: word_ok_def)
  have "split_scan [] (w @ 32 # py_join [32] (v # ws)) = split_scan w (32 # py_join [32] (v # ws))"
    using split_scan_word_prefix [OF w(1), of "[]"] by simp
  also have "\<dots> = w # split_scan [] (py_join [32] (v # ws))"
    using w(2) by (simp add: space_isspace)
  finally show ?case
    using rest by simp
qed

text \<open>
  C9. The whitespace normalisation applied before counting characters,
  \<open>' '.join(text.split())\<close>, is idempotent: normalising an already normalised string
  gives the same string, for every string.
\<close>

theorem clean_text_idempotent: "clean_text (clean_text s) = clean_text s"
proof -
  have "list_all word_ok (py_split s)"
    unfolding py_split_def by (rule split_scan_words) simp
  then have "py_split (py_join [32] (py_split s)) = py_split s"
    unfolding py_split_def by (rule split_scan_join)
  then show ?thesis
    by (simp add: clean_text_def)
qed

section \<open>Properties of the analyzer\<close>

lemma pymupdf_pages_bounds:
  "pymupdf_pages self ps tc pwt = Some (tc', pwt') \<Longrightarrow>
     pwt' \<le> pwt + length ps \<and> pwt \<le> pwt' \<and> tc \<le> tc'"
  by (induction self ps tc pwt rule: pymupdf_pages.induct) (auto simp: Let_def split: if_splits)

lemma pypdf2_pages_bounds:
  "pypdf2_pages self ps tc pwt = Some (tc', pwt') \<Longrightarrow>
     pwt' \<le> pwt + length ps \<and> pwt \<le> pwt' \<and> tc \<le> tc'"
  by (induction self ps tc pwt rule: pypdf2_pages.induct) (auto simp: Let_def split: if_splits)

lemma analyze_with_pymupdf_extracted:
  assumes "analyze_with_pymupdf self fs p r0 = (True, r)"
  shows "extracted r0 r"
proof -
  from assms obtain doc tc pwt where
    loop: "pymupdf_pages self doc 0 0 = Some (tc, pwt)" and
    r: "r = r0\<lparr>analysis_method := ''PyMuPDF'', total_pages := length doc,
               total_characters := tc, pages_with_text := pwt,
               average_chars_per_page := (if length doc > 0 then real tc / real (length doc) else 0)\<rparr>"
    by (auto simp: analyze_with_pymupdf_def Let_def split: option.splits)
  from pymupdf_pages_bounds [OF loop] have "pwt \<le> length doc"
    by simp
  moreover have "tc = 0" if "doc = []"
    using loop that by simp
  ultimately show ?thesis
    unfolding extracted_def r by (cases "doc = []") simp_all
qed

lemma analyze_with_pypdf2_extracted:
  assumes "analyze_with_pypdf2 self fs p r0 = (True, r)"
  shows "extracted r0 r"
proof -
  from assms obtain doc tc pwt where
    loop: "pypdf2_pages self doc 0 0 = Some (tc, pwt)" and
    r: "r = r0\<lparr>analysis_method := ''PyPDF2'', total_pages := length doc,
               total_characters := tc, pages_with_text := pwt,
               average_chars_per_page := (if length doc > 0 then real tc / real (length doc) else 0)\<rparr>"
    by (auto simp: analyze_with_pypdf2_def Let_def split: option.splits pypdf2_reader.splits)
  from pypdf2_pages_bounds [OF loop] have "pwt \<le> length doc"
    by simp
  moreover have "tc = 0" if "doc = []"
    using loop that by simp
  ultimately show ?thesis
    unfolding extracted_def r by (cases "doc = []") simp_all
qed

lemma analyze_with_pymupdf_failed:
  assumes "analyze_with_pymupdf self fs p r0 = (False, r)"
  shows "pages_with_text r = pages_with_text r0 \<and> has_text r = has_text r0 \<and>
         needs_ocr r = needs_ocr r0 \<and> error r = error r0 \<and> is_searchable r = is_searchable r0"
  using assms
  by (auto simp: analyze_with_pymupdf_def Let_def split: option.splits)

lemma analyze_with_pypdf2_failed:
  assumes "analyze_with_pypdf2 self fs p r0 = (False, r)"
  shows "pages_with_text r = pages_with_text r0 \<and> has_text r = has_text r0 \<and>
         needs_ocr r = needs_ocr r0 \<and> error r = error r0 \<and> is_searchable r = is_searchable r0"
  using assms
  by (auto simp: analyze_with_pypdf2_def Let_def split: option.splits pypdf2_reader.splits)

lemma extracted_no_division:
  assumes "extracted r0 r"
  shows "has_sufficient_text self r =
           Inr (total_characters r > min_text_threshold self \<and>
                average_chars_per_page r > real (min_text_threshold self) \<and>
                real (pages_with_text r) / real (total_pages r) \<ge> min_text_ratio self)"
  using assms by (auto simp: has_sufficient_text_def extracted_def)

lemma classify_extracted:
  assumes "extracted r0 r"
  shows "\<exists>b. has_sufficient_text self r = Inr b \<and>
             classify_and_return self p r =
               Analysis (r\<lparr>has_text := b, is_searchable := b, needs_ocr := (\<not> b)\<rparr>)"
  using extracted_no_division [OF assms, of self]
  by (simp add: classify_and_return_def determine_ocr_need_def)

text \<open>
  C2. Every result of \<open>analyze_pdf\<close> is the full dictionary and satisfies
  \<open>pages_with_text \<le> total_pages\<close> and \<open>needs_ocr = (not has_text)\<close>: after the primary
  backend, after the fallback, and when both backends fail. The \<open>except\<close> clause of
  \<open>analyze_pdf\<close>, whose dictionary has no page counts, is never reached, because the
  classification never divides by zero.
\<close>

theorem analysis_invariant:
  "\<exists>a. analyze_pdf self fs p = Analysis a \<and> pages_with_text a \<le> total_pages a \<and>
       needs_ocr a = (\<not> has_text a)"
proof (cases "analyze_with_pymupdf self fs p (initial_result p)")
  case (Pair ok1 r1)
  show ?thesis
  proof (cases ok1)
    case True
    with Pair have ex: "extracted (initial_result p) r1"
      by (simp add: analyze_with_pymupdf_extracted)
    from classify_extracted [OF ex, of self p] ex Pair True show ?thesis
      by (auto simp: analyze_pdf_def extracted_def)
  next
    case False
    with Pair have f1: "analyze_with_pymupdf self fs p (initial_result p) = (False, r1)"
      by simp
    note k1 = analyze_with_pymupdf_failed [OF f1]
    show ?thesis
    proof (cases "analyze_with_pypdf2 self fs p r1")
      case (Pair ok2 r2)
      show ?thesis
      proof (cases ok2)
        case True
        with Pair have ex: "extracted r1 r2"
          by (simp add: analyze_with_pypdf2_extracted)
        from classify_extracted [OF ex, of self p] ex Pair True f1 show ?thesis
          by (auto simp: analyze_pdf_def extracted_def)
      next
        case False
        with Pair have f2: "analyze_with_pypdf2 self fs p r1 = (False, r2)"
          by simp
        from analyze_with_pypdf2_failed [OF f2] k1 f1 f2 show ?thesis
          by (simp add: analyze_pdf_def initial_result_def)
      qed
    qed
  qed
qed

text \<open>The invariant at the three-page example.\<close>

theorem analysis_invariant_witness:
  "\<exists>a. analyze_pdf PDFDetector fs_text ''in.pdf'' = Analysis a \<and>
       pages_with_text a \<le> total_pages a \<and> needs_ocr a = (\<not> has_text a)"
  by (rule analysis_invariant)

lemma clean_text_word:
  assumes "list_all (\<lambda>c. \<not> py_isspace c) w"
  shows "clean_text w = w"
proof (cases "w = []")
  case True
  then show ?thesis by (simp add: clean_text_def py_split_def)
next
  case False
  with split_scan_word_prefix [OF assms, of "[]" "[]"] show ?thesis
    by (simp add: clean_text_def py_split_def)
qed

lemma clean_text_letters: "clean_text (replicate n 97) = replicate n 97"
  by (rule clean_text_word) (simp add: list_all_iff py_isspace_def)

lemma three_page_loop: "pymupdf_pages PDFDetector three_page_doc 0 0 = Some (205, 1)"
proof -
  have "clean_text [] = []"
    by (simp add: clean_text_def py_split_def)
  then show ?thesis
    by (simp add: three_page_doc_def clean_text_letters Let_def PDFDetector_def)
qed

lemma text_extraction:
  "analyze_with_pymupdf PDFDetector fs_text ''in.pdf'' (initial_result ''in.pdf'') =
     (True, \<lparr>file_path = ''in.pdf'', has_text = False, is_searchable = False, needs_ocr = True,
       total_pages = 3, pages_with_text = 1, total_characters = 205,
       average_chars_per_page = 205 / 3, analysis_method = ''PyMuPDF'', error = None\<rparr>)"
proof -
  have "fitz_open fs_text ''in.pdf'' = Some three_page_doc"
    by (simp add: fitz_open_def fs_text_def text_node_def)
  moreover have "length three_page_doc = 3"
    by (simp add: three_page_doc_def)
  ultimately show ?thesis
    by (simp add: analyze_with_pymupdf_def three_page_loop Let_def initial_result_def)
qed

lemma text_analysis:
  "analyze_pdf PDFDetector fs_text ''in.pdf'' =
     Analysis \<lparr>file_path = ''in.pdf'', has_text = True, is_searchable = True, needs_ocr = False,
       total_pages = 3, pages_with_text = 1, total_characters = 205,
       average_chars_per_page = 205 / 3, analysis_method = ''PyMuPDF'', error = None\<rparr>"
  unfolding analyze_pdf_def text_extraction
  by (simp add: classify_and_return_def determine_ocr_need_def has_sufficient_text_def
      PDFDetector_def)

lemma classify_thresholds:
  assumes ex: "extracted r0 r" and cl: "classify_and_return PDFDetector p r = Analysis a"
  shows "(\<not> needs_ocr a) =
           (total_characters a > 50 \<and> average_chars_per_page a > 50 \<and>
            real (pages_with_text a) / real (total_pages a) \<ge> 1 / 10) \<and>
         (total_characters a > 50 \<longrightarrow> total_pages a > 0) \<and> error a = error r0"
proof -
  define b where "b = (total_characters r > 50 \<and> average_chars_per_page r > 50 \<and>
                real (pages_with_text r) / real (total_pages r) \<ge> 1 / 10)"
  have "has_sufficient_text PDFDetector r = Inr b"
    using extracted_no_division [OF ex, of PDFDetector] by (simp add: PDFDetector_def b_def)
  with cl have a: "a = r\<lparr>has_text := b, is_searchable := b, needs_ocr := (\<not> b)\<rparr>"
    by (simp add: classify_and_return_def determine_ocr_need_def)
  have fields: "total_characters a = total_characters r"
    "average_chars_per_page a = average_chars_per_page r"
    "pages_with_text a = pages_with_text r" "total_pages a = total_pages r"
    "error a = error r" "needs_ocr a = (\<not> b)"
    unfolding a by simp_all
  have pos: "total_characters r > 50 \<longrightarrow> total_pages r > 0"
    using ex by (auto simp: extracted_def)
  have err: "error r = error r0"
    using ex by (simp add: extracted_def)
  show ?thesis
    unfolding fields using b_def pos err by blast
qed

text \<open>
  C1. For every document whose extraction succeeds (the result carries no error), the
  analyzer sets \<open>needs_ocr\<close> to false exactly when all three conditions hold:
  \<open>total_characters > 50\<close>, \<open>average_chars_per_page > 50\<close> and
  \<open>pages_with_text / total_pages \<ge> 0.1\<close>. In particular \<open>total_characters \<le> 50\<close>
  forces \<open>needs_ocr\<close>, and the three conditions together force its negation. The
  quotient is a quotient by a positive number whenever the first condition holds.
\<close>

theorem needs_ocr_iff_thresholds:
  assumes "analyze_pdf PDFDetector fs p = Analysis a" and "error a = None"
  shows "(\<not> needs_ocr a) =
           (total_characters a > 50 \<and> average_chars_per_page a > 50 \<and>
            real (pages_with_text a) / real (total_pages a) \<ge> 1 / 10) \<and>
         (total_characters a \<le> 50 \<longrightarrow> needs_ocr a) \<and>
         (total_characters a > 50 \<and> average_chars_per_page a > 50 \<and>
            real (pages_with_text a) / real (total_pages a) \<ge> 1 / 10 \<longrightarrow> \<not> needs_ocr a) \<and>
         (total_characters a > 50 \<longrightarrow> total_pages a > 0)"
proof -
  obtain ok1 r1 where p1: "analyze_with_pymupdf PDFDetector fs p (initial_result p) = (ok1, r1)"
    by (cases "analyze_with_pymupdf PDFDetector fs p (initial_result p)")
  obtain ok2 r2 where p2: "analyze_with_pypdf2 PDFDetector fs p r1 = (ok2, r2)"
    by (cases "analyze_with_pypdf2 PDFDetector fs p r1")
  have "\<exists>r0 r. extracted r0 r \<and> classify_and_return PDFDetector p r = Analysis a"
  proof (cases ok1)
    case True
    with p1 assms(1) analyze_with_pymupdf_extracted [of PDFDetector fs p "initial_result p" r1]
    show ?thesis
      by (auto simp: analyze_pdf_def)
  next
    case False
    note f1 = this
    show ?thesis
    proof (cases ok2)
      case True
      with f1 p1 p2 assms(1) analyze_with_pypdf2_extracted [of PDFDetector fs p r1 r2]
      show ?thesis
        by (auto simp: analyze_pdf_def)
    next
      case False
      with f1 p1 p2 assms show ?thesis
        by (auto simp: analyze_pdf_def)
    qed
  qed
  then obtain r0 r where "extracted r0 r" "classify_and_return PDFDetector p r = Analysis a"
    by blast
  from classify_thresholds [OF this]
  have iff: "(\<not> needs_ocr a) =
           (total_characters a > 50 \<and> average_chars_per_page a > 50 \<and>
            real (pages_with_text a) / real (total_pages a) \<ge> 1 / 10)"
    and pos: "total_characters a > 50 \<longrightarrow> total_pages a > 0"
    by blast+
  have low: "needs_ocr a" if "total_characters a \<le> 50"
  proof (rule ccontr)
    assume "\<not> needs_ocr a"
    with iff have "total_characters a > 50" by blast
    with that show False by simp
  qed
  show ?thesis
    using iff pos low by blast
qed

text \<open>The three-page example: 205 characters, one page with text, not in need of OCR.\<close>

theorem needs_ocr_iff_thresholds_witness:
  "analyze_pdf PDFDetector fs_text ''in.pdf'' =
     Analysis \<lparr>file_path = ''in.pdf'', has_text = True, is_searchable = True, needs_ocr = False,
       total_pages = 3, pages_with_text = 1, total_characters = 205,
       average_chars_per_page = 205 / 3, analysis_method = ''PyMuPDF'', error = None\<rparr> \<and>
   (205::nat) > 50 \<and> (205 / 3 :: real) > 50 \<and> (1 / 3 :: real) \<ge> 1 / 10"
  using needs_ocr_iff_thresholds [OF text_analysis] text_analysis by simp

text \<open>
  C10. For a document that a backend extracts successfully with \<open>total_pages = 0\<close>,
  \<open>_determine_ocr_need\<close> does not raise a division by zero and sets \<open>needs_ocr\<close>:
  zero pages force \<open>total_characters = 0\<close>, so the first comparison is false and the
  conjunction stops before the quotient \<open>pages_with_text / total_pages\<close>.
\<close>

theorem zero_pages_no_division:
  assumes "analyze_with_pymupdf self fs p r0 = (True, r) \<or>
           analyze_with_pypdf2 self fs p r0 = (True, r)"
      and "total_pages r = 0"
  shows "total_characters r = 0 \<and>
         has_sufficient_text self r = Inr False \<and>
         determine_ocr_need self r =
           Inr (r\<lparr>has_text := False, is_searchable := False, needs_ocr := True\<rparr>) \<and>
         classify_and_return self p r =
           Analysis (r\<lparr>has_text := False, is_searchable := False, needs_ocr := True\<rparr>)"
proof -
  from assms(1) have "extracted r0 r"
    using analyze_with_pymupdf_extracted analyze_with_pypdf2_extracted by blast
  with assms(2) have zero: "total_characters r = 0"
    by (auto simp: extracted_def)
  then have "has_sufficient_text self r = Inr False"
    by (simp add: has_sufficient_text_def)
  with zero show ?thesis
    by (simp add: determine_ocr_need_def classify_and_return_def)
qed

text \<open>The document without pages.\<close>

lemma empty_extraction:
  "analyze_with_pymupdf PDFDetector fs_empty ''in.pdf'' (initial_result ''in.pdf'') =
     (True, (initial_result ''in.pdf'')\<lparr>analysis_method := ''PyMuPDF''\<rparr>)"
  by (simp add: analyze_with_pymupdf_def fitz_open_def fs_empty_def empty_node_def
      initial_result_def)

theorem zero_pages_no_division_witness:
  "analyze_with_pymupdf PDFDetector fs_empty ''in.pdf'' (initial_result ''in.pdf'') =
     (True, (initial_result ''in.pdf'')\<lparr>analysis_method := ''PyMuPDF''\<rparr>) \<and>
   total_pages ((initial_result ''in.pdf'')\<lparr>analysis_method := ''PyMuPDF''\<rparr>) = 0 \<and>
   determine_ocr_need PDFDetector ((initial_result ''in.pdf'')\<lparr>analysis_method := ''PyMuPDF''\<rparr>) =
     Inr ((initial_result ''in.pdf'')\<lparr>analysis_method := ''PyMuPDF''\<rparr>) \<and>
   needs_ocr ((initial_result ''in.pdf'')\<lparr>analysis_method := ''PyMuPDF''\<rparr>)"
proof -
  have tp: "total_pages ((initial_result ''in.pdf'')\<lparr>analysis_method := ''PyMuPDF''\<rparr>) = 0"
    by (simp add: initial_result_def)
  from zero_pages_no_division [OF disjI1 [OF empty_extraction] tp] empty_extraction tp
  show ?thesis
    by (simp add: initial_result_def)
qed

section \<open>Properties of the OCR invoker\<close>

lemma exists_stat: "exists fs p \<Longrightarrow> \<exists>n. stat_size fs p = Inr n"
  by (auto simp: exists_def stat_size_def split: option.splits)

lemma apply_ocr_returns:
  assumes "ocrmypdf_ocr ev (files w) i out (ocr_config self) = (None, fs')"
  shows "apply_ocr ev self i out r w =
           (Inr True, r, \<lparr>files = fs', calls = calls w @ [OcrCall i out (ocr_config self)]\<rparr>)"
  using assms by (simp add: apply_ocr_def)

lemma apply_ocr_raises:
  assumes "ocrmypdf_ocr ev (files w) i out (ocr_config self) = (Some e, fs')"
  shows "apply_ocr ev self i out r w =
           (Inl (AttributeError msg_no_exit_code_not_ok), r,
            \<lparr>files = fs', calls = calls w @ [OcrCall i out (ocr_config self)]\<rparr>)"
  using assms by (simp add: apply_ocr_def)

lemma apply_ocr_shape:
  "\<exists>x fs'. apply_ocr ev self i out r w =
      (x, r, \<lparr>files = fs', calls = calls w @ [OcrCall i out (ocr_config self)]\<rparr>)"
  by (cases "ocrmypdf_ocr ev (files w) i out (ocr_config self)")
     (auto simp: apply_ocr_def Let_def split: option.splits)

lemma copy_existing_shape:
  "\<exists>ok r' fs'. copy_existing ev i out r w =
      (ok, r', \<lparr>files = fs', calls = calls w @ [CopyCall i out]\<rparr>) \<and>
      success r' = success r \<and> result_error r' = result_error r"
  by (cases "shutil_copy2 ev (files w) i out")
     (auto simp: copy_existing_def Let_def split: option.splits)

lemma ocr_config_init:
  "ocr_config (OCRProcessor cfg) =
     [''language'' \<mapsto> dict_get cfg ''language'' (CStr ''spa''),
      ''deskew'' \<mapsto> CBool False,
      ''clean'' \<mapsto> CBool False,
      ''optimize'' \<mapsto> CInt 1,
      ''pdf_renderer'' \<mapsto> CStr ''hocr'',
      ''progress_bar'' \<mapsto> CBool False,
      ''force_ocr'' \<mapsto> CBool True,
      ''redo_ocr'' \<mapsto> CBool False,
      ''skip_text'' \<mapsto> CBool False]"
  by (simp add: ocr_config_def OCRProcessor_def)

text \<open>
  C5 (as amended). The \<open>deskew\<close> and \<open>clean\<close> flags handed to the external OCR engine
  are fixed constants of the invocation, both false, whatever configuration was supplied
  to the invoker at construction. Of that configuration only the language reaches the
  engine (default \<open>spa\<close>): the keyword arguments are the nine below, and two
  configurations with the same language give the same keyword arguments. The engine is
  called with exactly these arguments.
\<close>

theorem ocr_flags_fixed:
  "ocr_config (OCRProcessor cfg) =
     [''language'' \<mapsto> dict_get cfg ''language'' (CStr ''spa''),
      ''deskew'' \<mapsto> CBool False,
      ''clean'' \<mapsto> CBool False,
      ''optimize'' \<mapsto> CInt 1,
      ''pdf_renderer'' \<mapsto> CStr ''hocr'',
      ''progress_bar'' \<mapsto> CBool False,
      ''force_ocr'' \<mapsto> CBool True,
      ''redo_ocr'' \<mapsto> CBool False,
      ''skip_text'' \<mapsto> CBool False] \<and>
   ocr_config (OCRProcessor cfg) ''deskew'' = Some (CBool False) \<and>
   ocr_config (OCRProcessor cfg) ''clean'' = Some (CBool False) \<and>
   ocr_config (OCRProcessor cfg) ''language'' = Some (dict_get cfg ''language'' (CStr ''spa'')) \<and>
   (\<forall>cfg'. dict_get cfg' ''language'' (CStr ''spa'') = dict_get cfg ''language'' (CStr ''spa'') \<longrightarrow>
       ocr_config (OCRProcessor cfg') = ocr_config (OCRProcessor cfg)) \<and>
   calls (snd (snd (apply_ocr ev (OCRProcessor cfg) i out r w))) =
     calls w @ [OcrCall i out (ocr_config (OCRProcessor cfg))]"
proof -
  have dep: "ocr_config (OCRProcessor cfg') = ocr_config (OCRProcessor cfg)"
    if "dict_get cfg' ''language'' (CStr ''spa'') = dict_get cfg ''language'' (CStr ''spa'')"
    for cfg'
    using that by (simp add: ocr_config_init)
  have flags: "ocr_config (OCRProcessor cfg) ''deskew'' = Some (CBool False)"
    "ocr_config (OCRProcessor cfg) ''clean'' = Some (CBool False)"
    "ocr_config (OCRProcessor cfg) ''language'' = Some (dict_get cfg ''language'' (CStr ''spa''))"
    by (simp_all add: ocr_config_init)
  from apply_ocr_shape [of ev "OCRProcessor cfg" i out r w]
  have log: "calls (snd (snd (apply_ocr ev (OCRProcessor cfg) i out r w))) =
      calls w @ [OcrCall i out (ocr_config (OCRProcessor cfg))]"
    by auto
  from dep flags log ocr_config_init [of cfg] show ?thesis
    by blast
qed

text \<open>
  \<open>Config.OCRMYPDF_CONFIG\<close> and the configuration that differs from it in \<open>deskew\<close> and
  \<open>clean\<close>: same language, same keyword arguments.
\<close>

theorem ocr_flags_fixed_witness:
  "dict_get (Config_OCRMYPDF_CONFIG(''deskew'' \<mapsto> CBool False, ''clean'' \<mapsto> CBool False))
       ''language'' (CStr ''spa'') =
     dict_get Config_OCRMYPDF_CONFIG ''language'' (CStr ''spa'') \<and>
   Config_OCRMYPDF_CONFIG ''deskew'' = Some (CBool True) \<and>
   ocr_config (OCRProcessor (Config_OCRMYPDF_CONFIG(''deskew'' \<mapsto> CBool False, ''clean'' \<mapsto> CBool False))) =
     ocr_config (OCRProcessor Config_OCRMYPDF_CONFIG) \<and>
   ocr_config (OCRProcessor Config_OCRMYPDF_CONFIG) ''deskew'' = Some (CBool False)"
proof -
  have lang: "dict_get (Config_OCRMYPDF_CONFIG(''deskew'' \<mapsto> CBool False, ''clean'' \<mapsto> CBool False))
       ''language'' (CStr ''spa'') =
     dict_get Config_OCRMYPDF_CONFIG ''language'' (CStr ''spa'')"
    by (simp add: dict_get_def Config_OCRMYPDF_CONFIG_def)
  have "Config_OCRMYPDF_CONFIG ''deskew'' = Some (CBool True)"
    by (simp add: Config_OCRMYPDF_CONFIG_def)
  with lang ocr_flags_fixed [of Config_OCRMYPDF_CONFIG] show ?thesis
    by blast
qed

text \<open>
  The claim as stated fails at the configuration the orchestrator supplies,
  \<open>Config.OCRMYPDF_CONFIG\<close>: it sets \<open>deskew\<close> and \<open>clean\<close> to true, and the engine is
  called with both false.
\<close>

theorem ocr_flags_counterexample:
  "Config_OCRMYPDF_CONFIG ''deskew'' = Some (CBool True) \<and>
   Config_OCRMYPDF_CONFIG ''clean'' = Some (CBool True) \<and>
   calls (snd (snd (apply_ocr env_ok (OCRProcessor Config_OCRMYPDF_CONFIG) ''in.pdf'' ''out.pdf''
       (initial_proc_result ''in.pdf'' ''out.pdf'') w_text))) =
     [OcrCall ''in.pdf'' ''out.pdf'' (ocr_config (OCRProcessor Config_OCRMYPDF_CONFIG))] \<and>
   ocr_config (OCRProcessor Config_OCRMYPDF_CONFIG) ''deskew'' = Some (CBool False) \<and>
   ocr_config (OCRProcessor Config_OCRMYPDF_CONFIG) ''clean'' = Some (CBool False)"
  by (simp add: Config_OCRMYPDF_CONFIG_def ocr_config_def apply_ocr_def env_ok_def w_text_def)


lemma initial_proc_result_fields:
  "success (initial_proc_result i out) = False"
  "result_error (initial_proc_result i out) = None"
  "processing_method (initial_proc_result i out) = []"
  by (simp_all add: initial_proc_result_def)

lemma choose_and_run_ocr:
  assumes ch: "force \<or> get_needs_ocr (analyze_pdf PDFDetector (files w) i)"
      and en: "ocrmypdf_ocr ev (files w) i out (ocr_config self) = (raised, fs')"
  shows "choose_and_run ev self i out force r w =
      ((case raised of None \<Rightarrow> Inr True
        | Some e \<Rightarrow> Inl (AttributeError msg_no_exit_code_not_ok)),
       r\<lparr>processing_method := (if force then ''OCR_FORCED'' else ''OCR_APPLIED'')\<rparr>,
       \<lparr>files = fs',
        calls = calls w @ (if force then [] else [AnalyzeCall i]) @
                [OcrCall i out (ocr_config self)]\<rparr>)"
proof -
  let ?w1 = "w\<lparr>calls := calls w @ [AnalyzeCall i]\<rparr>"
  have en1: "ocrmypdf_ocr ev (files ?w1) i out (ocr_config self) = (raised, fs')"
    using en by simp
  show ?thesis
  proof (cases raised)
    case None
    with ch apply_ocr_returns [OF en [unfolded None]] apply_ocr_returns [OF en1 [unfolded None]]
    show ?thesis
      by (cases force) (simp_all add: choose_and_run_def Let_def)
  next
    case (Some e)
    with ch apply_ocr_raises [OF en [unfolded Some]] apply_ocr_raises [OF en1 [unfolded Some]]
    show ?thesis
      by (cases force) (simp_all add: choose_and_run_def Let_def)
  qed
qed

lemma process_pdf_ocr_returns:
  assumes st: "stat_size (files w) i = Inr sz"
      and ch: "force \<or> get_needs_ocr (analyze_pdf PDFDetector (files w) i)"
      and en: "ocrmypdf_ocr ev (files w) i out (ocr_config self) = (None, fs')"
  shows "\<exists>r. process_pdf ev self w i out force =
           (ProcResult r,
            \<lparr>files = fs',
             calls = calls w @ (if force then [] else [AnalyzeCall i]) @
                     [OcrCall i out (ocr_config self)]\<rparr>) \<and>
           processing_method r = (if force then ''OCR_FORCED'' else ''OCR_APPLIED'') \<and>
           success r = exists fs' out \<and>
           result_error r = (if exists fs' out then None else Some msg_output_not_generated)"
proof (cases "exists fs' out")
  case True
  then obtain n where "stat_size fs' out = Inr n"
    using exists_stat by blast
  with True st show ?thesis
    by (simp add: process_pdf_def choose_and_run_ocr [OF ch en] initial_proc_result_fields)
next
  case False
  with st show ?thesis
    by (simp add: process_pdf_def choose_and_run_ocr [OF ch en] initial_proc_result_fields)
qed

lemma process_pdf_ocr_raises:
  assumes st: "stat_size (files w) i = Inr sz"
      and ch: "force \<or> get_needs_ocr (analyze_pdf PDFDetector (files w) i)"
      and en: "ocrmypdf_ocr ev (files w) i out (ocr_config self) = (Some e, fs')"
  shows "process_pdf ev self w i out force =
           (ProcExc False i out msg_no_exit_code_not_ok,
            \<lparr>files = fs',
             calls = calls w @ (if force then [] else [AnalyzeCall i]) @
                     [OcrCall i out (ocr_config self)]\<rparr>)"
  using st by (simp add: process_pdf_def choose_and_run_ocr [OF ch en])

text \<open>
  C6 (as amended). For every input whose file exists (the \<open>stat\<close> of line 59 succeeds),
  \<open>process_pdf\<close> called with \<open>force_ocr = true\<close> selects the OCR path: the only call it
  makes is one call of the OCR engine, the analyzer is not consulted, whatever its verdict
  would be, and when the engine returns the result has \<open>processing_method = OCR_FORCED\<close>.
\<close>

theorem force_ocr_selects_ocr:
  assumes "stat_size (files w) i = Inr sz"
  shows "\<exists>d w'. process_pdf ev self w i out True = (d, w') \<and>
           calls w' = calls w @ [OcrCall i out (ocr_config self)] \<and>
           (fst (ocrmypdf_ocr ev (files w) i out (ocr_config self)) = None \<longrightarrow>
              (\<exists>r. d = ProcResult r \<and> processing_method r = ''OCR_FORCED''))"
proof -
  obtain raised fs' where e: "ocrmypdf_ocr ev (files w) i out (ocr_config self) = (raised, fs')"
    by (cases "ocrmypdf_ocr ev (files w) i out (ocr_config self)")
  show ?thesis
  proof (cases raised)
    case None
    from process_pdf_ocr_returns [OF assms _ e [unfolded None], of True] show ?thesis
      by auto
  next
    case (Some x)
    from process_pdf_ocr_raises [OF assms _ e [unfolded Some], of True] e Some show ?thesis
      by simp
  qed
qed

text \<open>
  The claim as stated, for every input, fails at a path that names no file: the \<open>stat\<close>
  raises, \<open>process_pdf\<close> returns the dictionary of its \<open>except\<close> clause, which has no
  \<open>processing_method\<close>, and the engine is not invoked.
\<close>

theorem force_ocr_counterexample:
  "process_pdf env_ok (OCRProcessor Config_OCRMYPDF_CONFIG) w_text ''missing.pdf'' ''out.pdf'' True =
     (ProcExc False ''missing.pdf'' ''out.pdf''
        (''[Errno 2] No such file or directory: '' @ [CHR 0x27] @ ''missing.pdf'' @ [CHR 0x27]),
      w_text) \<and>
   calls w_text = []"
  by (simp add: process_pdf_def stat_size_def w_text_def fs_text_def)

lemma apply_ocr_result:
  "apply_ocr ev self i out r w = (x, r', w') \<Longrightarrow> r' = r"
  using apply_ocr_shape [of ev self i out r w] by auto

lemma choose_and_run_result:
  assumes "choose_and_run ev self i out force r w = (x, r', w')"
  shows "success r' = success r \<and> result_error r' = result_error r"
proof -
  let ?w1 = "w\<lparr>calls := calls w @ [AnalyzeCall i]\<rparr>"
  let ?rc = "r\<lparr>processing_method := ''COPY_EXISTING''\<rparr>"
  show ?thesis
  proof (cases "force \<or> get_needs_ocr (analyze_pdf PDFDetector (files w) i)")
    case True
    obtain raised fs' where en: "ocrmypdf_ocr ev (files w) i out (ocr_config self) = (raised, fs')"
      by (cases "ocrmypdf_ocr ev (files w) i out (ocr_config self)")
    from assms show ?thesis
      unfolding choose_and_run_ocr [OF True en] by auto
  next
    case False
    from copy_existing_shape [of ev i out ?rc ?w1]
    obtain ok rc fc where
      c: "copy_existing ev i out ?rc ?w1 = (ok, rc, \<lparr>files = fc, calls = calls ?w1 @ [CopyCall i out]\<rparr>)"
      and k: "success rc = success ?rc" "result_error rc = result_error ?rc"
      by blast
    from assms False have "r' = rc"
      by (simp add: choose_and_run_def Let_def c)
    with k show ?thesis
      by simp
  qed
qed

lemma process_pdf_cases:
  assumes "process_pdf ev self w i out force = (d, w')"
  shows "(\<exists>m. d = ProcExc False i out m) \<or>
         (\<exists>r. d = ProcResult r \<and> success r \<and> exists (files w') out \<and> result_error r = None) \<or>
         (\<exists>r. d = ProcResult r \<and> \<not> success r \<and> result_error r = Some msg_output_not_generated)"
proof (cases "stat_size (files w) i")
  case (Inl e)
  with assms show ?thesis
    by (auto simp: process_pdf_def)
next
  case (Inr sz)
  obtain x r1 w1 where run:
    "choose_and_run ev self i out force ((initial_proc_result i out)\<lparr>file_size_before := sz\<rparr>) w =
       (x, r1, w1)"
    by (metis prod_cases3)
  from choose_and_run_result [OF run]
  have r1: "success r1 = False" "result_error r1 = None"
    by (simp_all add: initial_proc_result_fields)
  show ?thesis
  proof (cases x)
    case (Inl e)
    with Inr assms show ?thesis
      by (auto simp: process_pdf_def run)
  next
    case ok: (Inr ok)
    show ?thesis
    proof (cases "ok \<and> exists (files w1) out")
      case True
      then obtain n where "stat_size (files w1) out = Inr n"
        using exists_stat by blast
      with True Inr ok assms r1 show ?thesis
        by (auto simp: process_pdf_def run)
    next
      case False
      with Inr ok assms r1 show ?thesis
        by (auto simp: process_pdf_def run)
    qed
  qed
qed

text \<open>
  C7. \<open>process_pdf\<close> declares \<open>success = true\<close> only if the output file exists at
  \<open>output_path\<close> in the file system the chosen action left; when the output is absent the
  result has \<open>success = false\<close> and an error message; in particular, when the engine
  returned without an exception and left no output file, the result has
  \<open>success = false\<close> and the message of line 86.
\<close>

theorem success_requires_output:
  assumes "process_pdf ev self w i out force = (d, w')"
  shows "(get_success d \<longrightarrow> exists (files w') out) \<and>
         (\<not> exists (files w') out \<longrightarrow>
            \<not> get_success d \<and> (\<exists>m. get_result_error d = Some m)) \<and>
         (\<forall>sz fs'. stat_size (files w) i = Inr sz \<and>
             (force \<or> get_needs_ocr (analyze_pdf PDFDetector (files w) i)) \<and>
             ocrmypdf_ocr ev (files w) i out (ocr_config self) = (None, fs') \<and>
             \<not> exists fs' out \<longrightarrow>
             files w' = fs' \<and> \<not> get_success d \<and>
             get_result_error d = Some msg_output_not_generated)"
proof -
  have a: "get_success d \<longrightarrow> exists (files w') out"
    using process_pdf_cases [OF assms] by auto
  have b: "\<not> exists (files w') out \<longrightarrow> \<not> get_success d \<and> (\<exists>m. get_result_error d = Some m)"
    using process_pdf_cases [OF assms] by auto
  have c: "files w' = fs' \<and> \<not> get_success d \<and> get_result_error d = Some msg_output_not_generated"
    if "stat_size (files w) i = Inr sz"
      and "force \<or> get_needs_ocr (analyze_pdf PDFDetector (files w) i)"
      and "ocrmypdf_ocr ev (files w) i out (ocr_config self) = (None, fs')"
      and "\<not> exists fs' out" for sz fs'
    using process_pdf_ocr_returns [OF that(1,2,3)] that(4) assms by auto
  from a b c show ?thesis
    by blast
qed

lemma engine_failure_message:
  assumes "stat_size (files w) i = Inr sz"
      and "force \<or> get_needs_ocr (analyze_pdf PDFDetector (files w) i)"
      and "ocrmypdf_ocr ev (files w) i out (ocr_config self) = (Some e, fs')"
  shows "\<exists>d w'. process_pdf ev self w i out force = (d, w') \<and>
          \<not> get_success d \<and> get_result_error d = Some msg_no_exit_code_not_ok \<and>
          ocr_calls (calls w') = ocr_calls (calls w) @ [OcrCall i out (ocr_config self)]"
  using process_pdf_ocr_raises [OF assms] by (simp add: ocr_calls_def)

text \<open>
  C8 (as amended). When the OCR engine fails, \<open>process_pdf\<close> returns a result with
  \<open>success = false\<close> and an error message that is not taken from the engine's exception:
  it is one and the same message for every engine and every exception; and the engine is
  invoked once, not a second time.
\<close>

theorem engine_failure_result:
  "\<exists>m. \<forall>ev self w i out force sz e fs'.
      stat_size (files w) i = Inr sz \<and>
      (force \<or> get_needs_ocr (analyze_pdf PDFDetector (files w) i)) \<and>
      ocrmypdf_ocr ev (files w) i out (ocr_config self) = (Some e, fs') \<longrightarrow>
      (\<exists>d w'. process_pdf ev self w i out force = (d, w') \<and>
          \<not> get_success d \<and> get_result_error d = Some m \<and>
          ocr_calls (calls w') = ocr_calls (calls w) @ [OcrCall i out (ocr_config self)])"
  by (rule exI [of _ msg_no_exit_code_not_ok]) (blast intro: engine_failure_message)


lemma stat_w_text: "stat_size (files w_text) ''in.pdf'' = Inr 2048"
  by (simp add: stat_size_def w_text_def fs_text_def text_node_def)

lemma no_output_in_fs_text: "\<not> exists fs_text ''out.pdf''"
  by (simp add: exists_def fs_text_def)

lemma env_ok_run:
  "ocrmypdf_ocr env_ok (files w_text) ''in.pdf'' ''out.pdf'' kw =
     (None, fs_text(''out.pdf'' \<mapsto> text_node))"
  by (simp add: env_ok_def w_text_def)

lemma env_silent_run:
  "ocrmypdf_ocr env_silent (files w_text) ''in.pdf'' ''out.pdf'' kw = (None, fs_text)"
  by (simp add: env_silent_def env_ok_def w_text_def)

lemma env_fails_run:
  "ocrmypdf_ocr env_fails (files w_text) ''in.pdf'' ''out.pdf'' kw =
     (Some (ExitCodeException ''tesseract failed''), fs_text)"
  by (simp add: env_fails_def env_ok_def w_text_def)

lemma env_disk_full_run:
  "ocrmypdf_ocr env_disk_full (files w_text) ''in.pdf'' ''out.pdf'' kw =
     (Some (OtherException ''disk full''), fs_text)"
  by (simp add: env_disk_full_def env_ok_def w_text_def)

text \<open>
  Forcing OCR on the three-page example, which the analyzer would classify as not needing
  OCR, with an engine that returns.
\<close>

theorem force_ocr_selects_ocr_witness:
  "stat_size (files w_text) ''in.pdf'' = Inr 2048 \<and>
   \<not> get_needs_ocr (analyze_pdf PDFDetector (files w_text) ''in.pdf'') \<and>
   fst (ocrmypdf_ocr env_ok (files w_text) ''in.pdf'' ''out.pdf''
          (ocr_config (OCRProcessor Config_OCRMYPDF_CONFIG))) = None \<and>
   (\<exists>r w'. process_pdf env_ok (OCRProcessor Config_OCRMYPDF_CONFIG) w_text ''in.pdf'' ''out.pdf'' True =
              (ProcResult r, w') \<and>
            processing_method r = ''OCR_FORCED'' \<and>
            calls w' = [OcrCall ''in.pdf'' ''out.pdf'' (ocr_config (OCRProcessor Config_OCRMYPDF_CONFIG))])"
proof -
  have v: "\<not> get_needs_ocr (analyze_pdf PDFDetector (files w_text) ''in.pdf'')"
    by (simp add: w_text_def text_analysis)
  have c: "calls w_text = []"
    by (simp add: w_text_def)
  have e: "fst (ocrmypdf_ocr env_ok (files w_text) ''in.pdf'' ''out.pdf''
          (ocr_config (OCRProcessor Config_OCRMYPDF_CONFIG))) = None"
    by (simp add: env_ok_run)
  from force_ocr_selects_ocr [OF stat_w_text, of env_ok "OCRProcessor Config_OCRMYPDF_CONFIG" "''out.pdf''"]
    e c
  have "\<exists>r w'. process_pdf env_ok (OCRProcessor Config_OCRMYPDF_CONFIG) w_text ''in.pdf'' ''out.pdf'' True =
              (ProcResult r, w') \<and>
            processing_method r = ''OCR_FORCED'' \<and>
            calls w' = [OcrCall ''in.pdf'' ''out.pdf'' (ocr_config (OCRProcessor Config_OCRMYPDF_CONFIG))]"
    by auto
  with stat_w_text v e show ?thesis
    by blast
qed

text \<open>
  The engine that returns normally and writes nothing, forced on the three-page example.
\<close>

theorem success_requires_output_witness:
  "ocrmypdf_ocr env_silent (files w_text) ''in.pdf'' ''out.pdf''
     (ocr_config (OCRProcessor Config_OCRMYPDF_CONFIG)) = (None, fs_text) \<and>
   \<not> exists fs_text ''out.pdf'' \<and>
   files (snd (process_pdf env_silent (OCRProcessor Config_OCRMYPDF_CONFIG) w_text
                 ''in.pdf'' ''out.pdf'' True)) = fs_text \<and>
   \<not> get_success (fst (process_pdf env_silent (OCRProcessor Config_OCRMYPDF_CONFIG) w_text
                 ''in.pdf'' ''out.pdf'' True)) \<and>
   get_result_error (fst (process_pdf env_silent (OCRProcessor Config_OCRMYPDF_CONFIG) w_text
                 ''in.pdf'' ''out.pdf'' True)) = Some msg_output_not_generated"
proof -
  let ?X = "process_pdf env_silent (OCRProcessor Config_OCRMYPDF_CONFIG) w_text
              ''in.pdf'' ''out.pdf'' True"
  have "?X = (fst ?X, snd ?X)"
    by simp
  from success_requires_output [OF this] stat_w_text env_silent_run no_output_in_fs_text
  show ?thesis
    by blast
qed

text \<open>
  The claim as stated fails for the engine that raises with the message
  "tesseract failed": the \<open>error\<close> of the result does not carry that message.
\<close>

theorem engine_failure_counterexample:
  "ocrmypdf_ocr env_fails (files w_text) ''in.pdf'' ''out.pdf''
     (ocr_config (OCRProcessor Config_OCRMYPDF_CONFIG)) =
     (Some (ExitCodeException ''tesseract failed''), fs_text) \<and>
   exn_str (ExitCodeException ''tesseract failed'') = ''tesseract failed'' \<and>
   process_pdf env_fails (OCRProcessor Config_OCRMYPDF_CONFIG) w_text ''in.pdf'' ''out.pdf'' True =
     (ProcExc False ''in.pdf'' ''out.pdf'' msg_no_exit_code_not_ok,
      \<lparr>files = fs_text,
       calls = [OcrCall ''in.pdf'' ''out.pdf'' (ocr_config (OCRProcessor Config_OCRMYPDF_CONFIG))]\<rparr>) \<and>
   msg_no_exit_code_not_ok \<noteq> ''tesseract failed''"
proof -
  have "msg_no_exit_code_not_ok \<noteq> ''tesseract failed''"
    by (simp add: msg_no_exit_code_not_ok_def)
  moreover have "calls w_text = []"
    by (simp add: w_text_def)
  ultimately show ?thesis
    using process_pdf_ocr_raises [OF stat_w_text _ env_fails_run, of True "OCRProcessor Config_OCRMYPDF_CONFIG"]
      env_fails_run
    by simp
qed

text \<open>
  Two failing engines with different exceptions and messages, forced on the three-page
  example: the same \<open>error\<close> in both results.
\<close>

theorem engine_failure_result_witness:
  "stat_size (files w_text) ''in.pdf'' = Inr 2048 \<and>
   ocrmypdf_ocr env_fails (files w_text) ''in.pdf'' ''out.pdf''
     (ocr_config (OCRProcessor Config_OCRMYPDF_CONFIG)) =
     (Some (ExitCodeException ''tesseract failed''), fs_text) \<and>
   ocrmypdf_ocr env_disk_full (files w_text) ''in.pdf'' ''out.pdf''
     (ocr_config (OCRProcessor Config_OCRMYPDF_CONFIG)) =
     (Some (OtherException ''disk full''), fs_text) \<and>
   \<not> get_success (fst (process_pdf env_fails (OCRProcessor Config_OCRMYPDF_CONFIG) w_text
                 ''in.pdf'' ''out.pdf'' True)) \<and>
   \<not> get_success (fst (process_pdf env_disk_full (OCRProcessor Config_OCRMYPDF_CONFIG) w_text
                 ''in.pdf'' ''out.pdf'' True)) \<and>
   get_result_error (fst (process_pdf env_fails (OCRProcessor Config_OCRMYPDF_CONFIG) w_text
                 ''in.pdf'' ''out.pdf'' True)) =
     get_result_error (fst (process_pdf env_disk_full (OCRProcessor Config_OCRMYPDF_CONFIG) w_text
                 ''in.pdf'' ''out.pdf'' True)) \<and>
   ocr_calls (calls (snd (process_pdf env_fails (OCRProcessor Config_OCRMYPDF_CONFIG) w_text
                 ''in.pdf'' ''out.pdf'' True))) =
     [OcrCall ''in.pdf'' ''out.pdf'' (ocr_config (OCRProcessor Config_OCRMYPDF_CONFIG))]"
proof -
  let ?P = "OCRProcessor Config_OCRMYPDF_CONFIG"
  from engine_failure_result obtain m where
    m: "\<forall>ev self w i out force sz e fs'.
      stat_size (files w) i = Inr sz \<and>
      (force \<or> get_needs_ocr (analyze_pdf PDFDetector (files w) i)) \<and>
      ocrmypdf_ocr ev (files w) i out (ocr_config self) = (Some e, fs') \<longrightarrow>
      (\<exists>d w'. process_pdf ev self w i out force = (d, w') \<and>
          \<not> get_success d \<and> get_result_error d = Some m \<and>
          ocr_calls (calls w') = ocr_calls (calls w) @ [OcrCall i out (ocr_config self)])"
    by (rule exE)
  have h1: "stat_size (files w_text) ''in.pdf'' = Inr 2048 \<and>
      (True \<or> get_needs_ocr (analyze_pdf PDFDetector (files w_text) ''in.pdf'')) \<and>
      ocrmypdf_ocr env_fails (files w_text) ''in.pdf'' ''out.pdf'' (ocr_config ?P) =
        (Some (ExitCodeException ''tesseract failed''), fs_text)"
    using stat_w_text env_fails_run by simp
  have h2: "stat_size (files w_text) ''in.pdf'' = Inr 2048 \<and>
      (True \<or> get_needs_ocr (analyze_pdf PDFDetector (files w_text) ''in.pdf'')) \<and>
      ocrmypdf_ocr env_disk_full (files w_text) ''in.pdf'' ''out.pdf'' (ocr_config ?P) =
        (Some (OtherException ''disk full''), fs_text)"
    using stat_w_text env_disk_full_run by simp
  have c: "ocr_calls (calls w_text) = []"
    by (simp add: w_text_def ocr_calls_def)
  from m [rule_format, OF h1] m [rule_format, OF h2] c
  have "\<not> get_success (fst (process_pdf env_fails ?P w_text ''in.pdf'' ''out.pdf'' True)) \<and>
    \<not> get_success (fst (process_pdf env_disk_full ?P w_text ''in.pdf'' ''out.pdf'' True)) \<and>
    get_result_error (fst (process_pdf env_fails ?P w_text ''in.pdf'' ''out.pdf'' True)) =
      get_result_error (fst (process_pdf env_disk_full ?P w_text ''in.pdf'' ''out.pdf'' True)) \<and>
    ocr_calls (calls (snd (process_pdf env_fails ?P w_text ''in.pdf'' ''out.pdf'' True))) =
      [OcrCall ''in.pdf'' ''out.pdf'' (ocr_config ?P)]"
    by auto
  with stat_w_text env_fails_run env_disk_full_run show ?thesis
    by blast
qed

section \<open>Properties of the orchestrator\<close>

lemma msg_no_method_truthy: "truthy (Some msg_no_method)"
  by (simp add: msg_no_method_def)

lemma both_fail_analysis:
  assumes "both_backends_fail self fs p"
  shows "\<exists>a. analyze_pdf self fs p = Analysis a \<and> error a = Some msg_no_method \<and>
             needs_ocr a \<and> \<not> has_text a"
proof -
  obtain ok1 r1 where p1: "analyze_with_pymupdf self fs p (initial_result p) = (ok1, r1)"
    by (cases "analyze_with_pymupdf self fs p (initial_result p)")
  obtain ok2 r2 where p2: "analyze_with_pypdf2 self fs p r1 = (ok2, r2)"
    by (cases "analyze_with_pypdf2 self fs p r1")
  from assms p1 p2 have f: "\<not> ok1" "\<not> ok2"
    by (simp_all add: both_backends_fail_def)
  from analyze_with_pymupdf_failed [of self fs p "initial_result p" r1]
       analyze_with_pypdf2_failed [of self fs p r1 r2] p1 p2 f
  have "needs_ocr r2 \<and> \<not> has_text r2"
    by (simp add: initial_result_def)
  with p1 p2 f show ?thesis
    by (simp add: analyze_pdf_def)
qed

lemma validate_output_path_calls:
  "processing_calls (calls (snd (validate_output_path ev w out))) = processing_calls (calls w) \<and>
   action_calls (calls (snd (validate_output_path ev w out))) = action_calls (calls w)"
  by (cases "mkdir_parents ev (files w) (path_parent ev out)")
     (auto simp: validate_output_path_def Let_def processing_calls_def action_calls_def
       split: option.splits)

lemma choose_and_run_calls:
  assumes "choose_and_run ev self i out force r w = (x, r', w')"
  shows "\<exists>rest. calls w' = calls w @ rest"
proof -
  let ?w1 = "w\<lparr>calls := calls w @ [AnalyzeCall i]\<rparr>"
  show ?thesis
  proof (cases "force \<or> get_needs_ocr (analyze_pdf PDFDetector (files w) i)")
    case True
    obtain raised fs' where en: "ocrmypdf_ocr ev (files w) i out (ocr_config self) = (raised, fs')"
      by (cases "ocrmypdf_ocr ev (files w) i out (ocr_config self)")
    from assms show ?thesis
      unfolding choose_and_run_ocr [OF True en] by auto
  next
    case False
    from copy_existing_shape [of ev i out "r\<lparr>processing_method := ''COPY_EXISTING''\<rparr>" ?w1]
    obtain ok rc fc where
      c: "copy_existing ev i out (r\<lparr>processing_method := ''COPY_EXISTING''\<rparr>) ?w1 =
            (ok, rc, \<lparr>files = fc, calls = calls ?w1 @ [CopyCall i out]\<rparr>)"
      by blast
    from assms False have "calls w' = calls w @ [AnalyzeCall i, CopyCall i out]"
      by (auto simp: choose_and_run_def Let_def c)
    then show ?thesis
      by blast
  qed
qed

lemma process_pdf_calls:
  assumes "process_pdf ev self w i out force = (d, w')"
  shows "\<exists>rest. calls w' = calls w @ rest"
proof (cases "stat_size (files w) i")
  case (Inl e)
  with assms show ?thesis
    by (simp add: process_pdf_def)
next
  case (Inr sz)
  obtain x r1 w1 where run:
    "choose_and_run ev self i out force ((initial_proc_result i out)\<lparr>file_size_before := sz\<rparr>) w =
       (x, r1, w1)"
    by (metis prod_cases3)
  from assms Inr have "w' = w1"
    by (auto simp: process_pdf_def run split: if_splits sum.splits)
  with choose_and_run_calls [OF run] show ?thesis
    by simp
qed


lemma process_single_pdf_rejected:
  assumes "validation_rejects ev w i out"
  shows "\<exists>w'. process_single_pdf ev cfg w i out force = (False, w') \<and>
              processing_calls (calls w') = processing_calls (calls w)"
proof -
  obtain vi ei where v1: "validate_pdf_file ev (files w) i = (vi, ei)"
    by (cases "validate_pdf_file ev (files w) i")
  obtain vo eo w1 where v2: "validate_output_path ev w out = ((vo, eo), w1)"
    by (cases "validate_output_path ev w out") (metis surj_pair)
  from validate_output_path_calls [of ev w out] v2
  have c1: "processing_calls (calls w1) = processing_calls (calls w)"
    by simp
  from assms v1 v2 have "\<not> vi \<or> \<not> vo"
    by (simp add: validation_rejects_def)
  then show ?thesis
    using v1 v2 c1 by (cases vi) (auto simp: process_single_pdf_def)
qed

lemma process_single_pdf_accepted:
  assumes "\<not> validation_rejects ev w i out"
    and "process_single_pdf ev cfg w i out force = (b, w')"
  shows "\<exists>rest. processing_calls (calls w') = processing_calls (calls w) @ AnalyzeCall i # rest"
proof -
  obtain ei where v1: "validate_pdf_file ev (files w) i = (True, ei)"
    using assms(1) by (cases "validate_pdf_file ev (files w) i") (auto simp: validation_rejects_def)
  obtain eo w1 where v2: "validate_output_path ev w out = ((True, eo), w1)"
    using assms(1)
    by (cases "validate_output_path ev w out") (auto simp: validation_rejects_def)
  from validate_output_path_calls [of ev w out] v2
  have c1: "processing_calls (calls w1) = processing_calls (calls w)"
    by simp
  let ?w2 = "w1\<lparr>calls := calls w1 @ [AnalyzeCall i]\<rparr>"
  have c2: "processing_calls (calls ?w2) = processing_calls (calls w) @ [AnalyzeCall i]"
    using c1 by (simp add: processing_calls_def)
  obtain d w3 where pp: "process_pdf ev (OCRProcessor cfg) ?w2 i out force = (d, w3)"
    by (cases "process_pdf ev (OCRProcessor cfg) ?w2 i out force")
  from process_pdf_calls [OF pp] obtain rest where "calls w3 = calls ?w2 @ rest"
    by blast
  then have c3: "processing_calls (calls w3) =
      processing_calls (calls w) @ AnalyzeCall i # processing_calls rest"
    using c2 by (simp add: processing_calls_def)
  from assms(2) have "w' = ?w2 \<or> w' = w3"
    by (auto simp: process_single_pdf_def v1 v2 pp Let_def
        split: if_splits analysis_dict.splits)
  with c2 c3 show ?thesis
    by auto
qed

text \<open>
  What the orchestrator's validation does: it rejects a pair exactly when one of its two
  validators rejects its path, and only then does processing not start; it has no check
  that looks at both paths.
\<close>

lemma validation_gate:
  assumes "process_single_pdf ev cfg w i out force = (b, w')"
  shows "(validation_rejects ev w i out \<longrightarrow>
            \<not> b \<and> processing_calls (calls w') = processing_calls (calls w)) \<and>
         (\<not> validation_rejects ev w i out \<longrightarrow>
            (\<exists>rest. processing_calls (calls w') =
                     processing_calls (calls w) @ AnalyzeCall i # rest))"
  using process_single_pdf_rejected [of ev w i out cfg force]
    process_single_pdf_accepted [OF _ assms] assms
  by auto

text \<open>
  The validation of the file manager rejects every pair of paths that resolve to the same
  path.
\<close>

lemma validate_paths_same_file:
  assumes "validate_paths ev w i out = ((valid, errors), w1)"
      and "path_resolve ev (files w1) i = path_resolve ev (files w1) out"
  shows "\<not> valid \<and> SameFile \<in> set errors"
proof -
  obtain raised fs' where mk: "mkdir_parents ev (files w) (path_parent ev out) = (raised, fs')"
    by (cases "mkdir_parents ev (files w) (path_parent ev out)")
  show ?thesis
  proof (cases "exists (files w) (path_parent ev out)")
    case True
    with assms show ?thesis
      by (auto simp: validate_paths_def Let_def)
  next
    case False
    with assms show ?thesis
      by (auto simp: validate_paths_def Let_def mk)
  qed
qed

text \<open>
  C3 (as amended). When both extraction backends fail, the analyzer returns a result with
  \<open>error\<close> set and \<open>needs_ocr = true\<close>. For the OCR invoker this is not fatal:
  \<open>process_pdf\<close> without force, on an input that exists, goes on to the OCR step, one call
  of the engine after the analysis, and records \<open>OCR_APPLIED\<close> when the engine returns.
  The orchestrator \<open>process_single_pdf\<close>, by its guard on \<open>analysis.get('error')\<close>
  (main.py, line 154), reports the analysis error and returns false; it invokes neither
  the engine nor the copy. (The second hypothesis says that the input is still unreadable
  after the validation, which may have created the parent directory of the output.)
\<close>

theorem both_fail_result:
  assumes bf: "both_backends_fail PDFDetector (files w) i"
      and bf': "both_backends_fail PDFDetector (files (snd (validate_output_path ev w out))) i"
  shows "(\<exists>a. analyze_pdf PDFDetector (files w) i = Analysis a \<and>
              error a = Some msg_no_method \<and> needs_ocr a \<and> \<not> has_text a) \<and>
         (\<forall>sz. stat_size (files w) i = Inr sz \<longrightarrow>
            (\<exists>d w'. process_pdf ev self w i out False = (d, w') \<and>
                     calls w' = calls w @ [AnalyzeCall i, OcrCall i out (ocr_config self)] \<and>
                     (fst (ocrmypdf_ocr ev (files w) i out (ocr_config self)) = None \<longrightarrow>
                        (\<exists>r. d = ProcResult r \<and> processing_method r = ''OCR_APPLIED'')))) \<and>
         (\<exists>w'. process_single_pdf ev cfg w i out force = (False, w') \<and>
               action_calls (calls w') = action_calls (calls w))"
proof -
  from both_fail_analysis [OF bf] obtain a where
    a: "analyze_pdf PDFDetector (files w) i = Analysis a" "error a = Some msg_no_method"
       "needs_ocr a" "\<not> has_text a"
    by blast
  have p2: "\<exists>d w'. process_pdf ev self w i out False = (d, w') \<and>
                     calls w' = calls w @ [AnalyzeCall i, OcrCall i out (ocr_config self)] \<and>
                     (fst (ocrmypdf_ocr ev (files w) i out (ocr_config self)) = None \<longrightarrow>
                        (\<exists>r. d = ProcResult r \<and> processing_method r = ''OCR_APPLIED''))"
    if st: "stat_size (files w) i = Inr sz" for sz
  proof -
    obtain raised fs' where e: "ocrmypdf_ocr ev (files w) i out (ocr_config self) = (raised, fs')"
      by (cases "ocrmypdf_ocr ev (files w) i out (ocr_config self)")
    have ch: "False \<or> get_needs_ocr (analyze_pdf PDFDetector (files w) i)"
      using a by simp
    show ?thesis
    proof (cases raised)
      case None
      from process_pdf_ocr_returns [OF st ch e [unfolded None]] show ?thesis
        by auto
    next
      case (Some x)
      from process_pdf_ocr_raises [OF st ch e [unfolded Some]] e Some show ?thesis
        by simp
    qed
  qed
  have p3: "\<exists>w'. process_single_pdf ev cfg w i out force = (False, w') \<and>
               action_calls (calls w') = action_calls (calls w)"
  proof -
    obtain vi ei where v1: "validate_pdf_file ev (files w) i = (vi, ei)"
      by (cases "validate_pdf_file ev (files w) i")
    obtain vo eo w1 where v2: "validate_output_path ev w out = ((vo, eo), w1)"
      by (cases "validate_output_path ev w out") (metis surj_pair)
    have c1: "action_calls (calls w1) = action_calls (calls w)"
      using validate_output_path_calls [of ev w out] v2 by simp
    from bf' v2 have "both_backends_fail PDFDetector (files w1) i"
      by simp
    from both_fail_analysis [OF this] obtain a1 where
      a1: "analyze_pdf PDFDetector (files w1) i = Analysis a1" "error a1 = Some msg_no_method"
      by blast
    show ?thesis
      using v1 v2 c1 a1 msg_no_method_truthy
      by (cases vi; cases vo) (simp_all add: process_single_pdf_def Let_def action_calls_def)
  qed
  from a p2 p3 show ?thesis
    by blast
qed

lemma pdf_suffix: "py_lower (path_suffix env_ok ''in.pdf'') = ''.pdf''"
  "py_lower (path_suffix env_ok ''out.pdf'') = ''.pdf''"
  by (simp_all add: env_ok_def suffix_of_def py_lower_def lower_char_def)

lemma env_ok_parent: "path_parent env_ok p = ''.''"
  by (simp add: env_ok_def)

lemma validate_in_broken: "validate_pdf_file env_ok fs_broken ''in.pdf'' = (True, None)"
  by (simp add: validate_pdf_file_def pdf_suffix exists_def stat_size_def fs_broken_def
      broken_node_def)

lemma validate_in_text: "validate_pdf_file env_ok fs_text ''in.pdf'' = (True, None)"
  by (simp add: validate_pdf_file_def pdf_suffix exists_def stat_size_def fs_text_def
      text_node_def)

lemma validate_out_broken:
  "validate_output_path env_ok w_broken ''out.pdf'' = ((True, None), w_broken)"
  by (simp add: validate_output_path_def check_output_file_def pdf_suffix exists_def
      w_broken_def fs_broken_def env_ok_parent)

lemma broken_fails: "both_backends_fail PDFDetector fs_broken ''in.pdf''"
  by (simp add: both_backends_fail_def analyze_with_pymupdf_def analyze_with_pypdf2_def
      fitz_open_def pypdf2_open_def fs_broken_def broken_node_def)

text \<open>
  The claim as stated fails at a PDF that exists, passes both validators, and that neither
  backend can read: the orchestrator returns false after the analysis, and the only call
  of the run is that of the analyzer; the OCR step is not reached.
\<close>

theorem both_fail_counterexample:
  "both_backends_fail PDFDetector (files w_broken) ''in.pdf'' \<and>
   fst (validate_pdf_file env_ok (files w_broken) ''in.pdf'') \<and>
   fst (fst (validate_output_path env_ok w_broken ''out.pdf'')) \<and>
   process_single_pdf env_ok Config_OCRMYPDF_CONFIG w_broken ''in.pdf'' ''out.pdf'' False =
     (False, \<lparr>files = fs_broken, calls = [AnalyzeCall ''in.pdf'']\<rparr>)"
proof -
  have f: "files w_broken = fs_broken" "calls w_broken = []"
    by (simp_all add: w_broken_def)
  from both_fail_analysis [OF broken_fails] obtain a where
    "analyze_pdf PDFDetector fs_broken ''in.pdf'' = Analysis a" "error a = Some msg_no_method"
    by blast
  then show ?thesis
    using broken_fails msg_no_method_truthy
    by (simp add: process_single_pdf_def f validate_in_broken validate_out_broken Let_def)
qed

text \<open>
  The unreadable PDF, with an engine that returns.
\<close>

theorem both_fail_result_witness:
  "both_backends_fail PDFDetector (files w_broken) ''in.pdf'' \<and>
   both_backends_fail PDFDetector (files (snd (validate_output_path env_ok w_broken ''out.pdf''))) ''in.pdf'' \<and>
   stat_size (files w_broken) ''in.pdf'' = Inr 2048 \<and>
   fst (ocrmypdf_ocr env_ok (files w_broken) ''in.pdf'' ''out.pdf''
          (ocr_config (OCRProcessor Config_OCRMYPDF_CONFIG))) = None \<and>
   (\<exists>a. analyze_pdf PDFDetector (files w_broken) ''in.pdf'' = Analysis a \<and>
        error a = Some msg_no_method \<and> needs_ocr a \<and> \<not> has_text a) \<and>
   (\<exists>r w'. process_pdf env_ok (OCRProcessor Config_OCRMYPDF_CONFIG) w_broken ''in.pdf'' ''out.pdf'' False =
              (ProcResult r, w') \<and>
            processing_method r = ''OCR_APPLIED'' \<and>
            calls w' = calls w_broken @
              [AnalyzeCall ''in.pdf'',
               OcrCall ''in.pdf'' ''out.pdf'' (ocr_config (OCRProcessor Config_OCRMYPDF_CONFIG))]) \<and>
   (\<exists>w'. process_single_pdf env_ok Config_OCRMYPDF_CONFIG w_broken ''in.pdf'' ''out.pdf'' False =
            (False, w') \<and>
          action_calls (calls w') = action_calls (calls w_broken))"
proof -
  let ?P = "OCRProcessor Config_OCRMYPDF_CONFIG"
  have bf: "both_backends_fail PDFDetector (files w_broken) ''in.pdf''"
    using broken_fails by (simp add: w_broken_def)
  have bf': "both_backends_fail PDFDetector
      (files (snd (validate_output_path env_ok w_broken ''out.pdf''))) ''in.pdf''"
    using bf by (simp add: validate_out_broken)
  have st: "stat_size (files w_broken) ''in.pdf'' = Inr 2048"
    by (simp add: stat_size_def w_broken_def fs_broken_def broken_node_def)
  have en: "fst (ocrmypdf_ocr env_ok (files w_broken) ''in.pdf'' ''out.pdf'' (ocr_config ?P)) = None"
    by (simp add: env_ok_def)
  note r = both_fail_result [OF bf bf', of ?P Config_OCRMYPDF_CONFIG False]
  from r st en
  have "\<exists>r w'. process_pdf env_ok ?P w_broken ''in.pdf'' ''out.pdf'' False = (ProcResult r, w') \<and>
            processing_method r = ''OCR_APPLIED'' \<and>
            calls w' = calls w_broken @
              [AnalyzeCall ''in.pdf'', OcrCall ''in.pdf'' ''out.pdf'' (ocr_config ?P)]"
    by auto
  with r bf bf' st en show ?thesis
    by blast
qed


lemma validate_out_same:
  "validate_output_path env_ok w_text ''in.pdf'' = ((True, None), w_text)"
  by (simp add: validate_output_path_def check_output_file_def pdf_suffix exists_def
      os_access_w_def w_text_def fs_text_def text_node_def env_ok_parent)

lemma same_path_run:
  "process_single_pdf env_ok Config_OCRMYPDF_CONFIG w_text ''in.pdf'' ''in.pdf'' True =
     (True,
      \<lparr>files = fs_text(''in.pdf'' \<mapsto> text_node),
       calls = [AnalyzeCall ''in.pdf'',
                OcrCall ''in.pdf'' ''in.pdf'' (ocr_config (OCRProcessor Config_OCRMYPDF_CONFIG))]\<rparr>)"
proof -
  let ?w2 = "w_text\<lparr>calls := calls w_text @ [AnalyzeCall ''in.pdf'']\<rparr>"
  have st: "stat_size (files ?w2) ''in.pdf'' = Inr 2048"
    using stat_w_text by simp
  have en: "ocrmypdf_ocr env_ok (files ?w2) ''in.pdf'' ''in.pdf''
              (ocr_config (OCRProcessor Config_OCRMYPDF_CONFIG)) =
            (None, fs_text(''in.pdf'' \<mapsto> text_node))"
    by (simp add: env_ok_def w_text_def)
  have ex: "exists (fs_text(''in.pdf'' \<mapsto> text_node)) ''in.pdf''"
    by (simp add: exists_def)
  from process_pdf_ocr_returns [OF st _ en, of True] ex
  obtain r where
    "process_pdf env_ok (OCRProcessor Config_OCRMYPDF_CONFIG) ?w2 ''in.pdf'' ''in.pdf'' True =
       (ProcResult r,
        \<lparr>files = fs_text(''in.pdf'' \<mapsto> text_node),
         calls = calls ?w2 @
           [OcrCall ''in.pdf'' ''in.pdf'' (ocr_config (OCRProcessor Config_OCRMYPDF_CONFIG))]\<rparr>)"
    "success r"
    by auto
  moreover have "files w_text = fs_text" "calls w_text = []"
    by (simp_all add: w_text_def)
  ultimately show ?thesis
    by (simp add: process_single_pdf_def validate_in_text validate_out_same Let_def text_analysis)
qed

lemma validate_paths_same:
  "validate_paths env_ok w_text ''in.pdf'' ''in.pdf'' = ((False, [SameFile]), w_text)"
  by (simp add: validate_paths_def Let_def pdf_suffix env_ok_parent exists_def path_is_file_def
      os_access_r_def os_access_w_def w_text_def fs_text_def text_node_def dir_node_def)

text \<open>
  C4. A pair of input and output paths whose resolved paths are equal is to be rejected by
  the orchestrator's validation, so that processing never starts. The code does not do so:
  at \<open>in.pdf\<close> given as input and as output, a readable and writable PDF, both validators
  of the orchestrator accept, \<open>process_single_pdf\<close> goes on to the analyzer and to the
  OCR engine, which is called with the same path for input and output, and returns true.
  The check exists in the repository: \<open>FileManager.validate_paths\<close> rejects this pair
  with its same-file message, and the orchestrator never calls it.
\<close>

theorem same_path_not_rejected:
  "path_resolve env_ok (files w_text) ''in.pdf'' = path_resolve env_ok (files w_text) ''in.pdf'' \<and>
   fst (validate_pdf_file env_ok (files w_text) ''in.pdf'') \<and>
   fst (fst (validate_output_path env_ok w_text ''in.pdf'')) \<and>
   process_single_pdf env_ok Config_OCRMYPDF_CONFIG w_text ''in.pdf'' ''in.pdf'' True =
     (True,
      \<lparr>files = fs_text(''in.pdf'' \<mapsto> text_node),
       calls = [AnalyzeCall ''in.pdf'',
                OcrCall ''in.pdf'' ''in.pdf'' (ocr_config (OCRProcessor Config_OCRMYPDF_CONFIG))]\<rparr>) \<and>
   validate_paths env_ok w_text ''in.pdf'' ''in.pdf'' = ((False, [SameFile]), w_text)"
proof -
  have "fst (validate_pdf_file env_ok (files w_text) ''in.pdf'')"
    by (simp add: w_text_def validate_in_text)
  moreover have "fst (fst (validate_output_path env_ok w_text ''in.pdf''))"
    by (simp add: validate_out_same)
  ultimately show ?thesis
    using same_path_run validate_paths_same by simp
qed

end
